theory Spec2Isabelle
  imports Complex_Main "HOL-Library.Sublist" "HOL-Library.Multiset"
begin

section \<open>Python text operations\<close>

text \<open>
  A Python \<open>str\<close> is modelled as a \<open>string\<close>: one Isabelle character stands for one
  Python character, so \<open>length\<close> is Python's \<open>len\<close>. The model therefore covers text
  whose code points are below 256.
\<close>

text \<open>\<open>sub in s\<close>.\<close>

fun contains :: "string \<Rightarrow> string \<Rightarrow> bool" where
  "contains sub [] = (sub = [])"
| "contains sub (x # xs) = (prefix sub (x # xs) \<or> contains sub xs)"

text \<open>\<open>s.split(sep)\<close> for a non-empty separator: leftmost occurrences, not overlapping.\<close>

function py_split_acc :: "string \<Rightarrow> string \<Rightarrow> string \<Rightarrow> string list" where
  "py_split_acc sep acc [] = [rev acc]"
| "py_split_acc sep acc (x # xs) =
     (if sep \<noteq> [] \<and> prefix sep (x # xs)
      then rev acc # py_split_acc sep [] (drop (length sep) (x # xs))
      else py_split_acc sep (x # acc) xs)"
  by pat_completeness auto
termination
  by (relation "measure (\<lambda>(sep, acc, s). length s)") auto

definition py_split :: "string \<Rightarrow> string \<Rightarrow> string list" where
  "py_split sep s = py_split_acc sep [] s"

text \<open>\<open>s.replace(old, new)\<close> for a non-empty \<open>old\<close>.\<close>

function replace :: "string \<Rightarrow> string \<Rightarrow> string \<Rightarrow> string" where
  "replace old new [] = []"
| "replace old new (x # xs) =
     (if old \<noteq> [] \<and> prefix old (x # xs)
      then new @ replace old new (drop (length old) (x # xs))
      else x # replace old new xs)"
  by pat_completeness auto
termination
  by (relation "measure (\<lambda>(old, new, s). length s)") auto

text \<open>\<open>str.isspace\<close> on one character, for code points below 256.\<close>

definition isspace :: "char \<Rightarrow> bool" where
  "isspace c = (of_char c \<in> {9, 10, 11, 12, 13, 28, 29, 30, 31, 32, 133, 160 :: nat})"

definition strip :: "string \<Rightarrow> string" where
  "strip s = rev (dropWhile isspace (rev (dropWhile isspace s)))"

text \<open>\<open>str.lower\<close>, for code points below 256.\<close>

definition lower_char :: "char \<Rightarrow> char" where
  "lower_char c =
     (let n = (of_char c :: nat)
      in if (65 \<le> n \<and> n \<le> 90) \<or> (192 \<le> n \<and> n \<le> 222 \<and> n \<noteq> 215)
         then char_of (n + 32) else c)"

definition lower :: "string \<Rightarrow> string" where
  "lower s = map lower_char s"

text \<open>\<open>str(n)\<close> for a non-negative integer.\<close>

function str_nat :: "nat \<Rightarrow> string" where
  "str_nat n =
     (if n < 10 then [char_of (48 + n)]
      else str_nat (n div 10) @ [char_of (48 + n mod 10)])"
  by pat_completeness auto
termination
  by (relation "measure id") auto

declare str_nat.simps [simp del]


definition newline :: string where
  "newline = [CHR 0x0A]"

definition apostrophe :: string where
  "apostrophe = [CHR 0x27]"

definition double_quote :: string where
  "double_quote = [CHR 0x22]"

datatype py_error = IndexError

text \<open>\<open>xs[i]\<close> for \<open>i \<ge> 0\<close>: out of range raises.\<close>

fun nth_or_raise :: "'a list \<Rightarrow> nat \<Rightarrow> py_error + 'a" where
  "nth_or_raise [] i = Inl IndexError"
| "nth_or_raise (x # xs) 0 = Inr x"
| "nth_or_raise (x # xs) (Suc i) = nth_or_raise xs i"

section \<open>Data model\<close>

text \<open>
  An issue is a Python dict; every key the program reads or writes is a field, absent
  keys are \<open>None\<close>. The key \<open>type\<close> is the field \<open>issue_type\<close>.
\<close>

record issue =
  issue_type :: "string option"
  severity :: "string option"
  title :: "string option"
  description :: "string option"
  line :: "int option"
  suggestion :: "string option"
  file_path :: "string option"
  source :: "string option"
  enhanced_suggestion :: "string option"

text \<open>The dict literal of the static checks: six keys, the others absent.\<close>

definition mk_issue :: "string \<Rightarrow> string \<Rightarrow> string \<Rightarrow> string \<Rightarrow> int \<Rightarrow> string \<Rightarrow> issue" where
  "mk_issue t sev ttl descr row sugg =
     \<lparr>issue_type = Some t, severity = Some sev, title = Some ttl, description = Some descr,
      line = Some row, suggestion = Some sugg, file_path = None, source = None,
      enhanced_suggestion = None\<rparr>"

record func_info =
  func_name :: string
  func_line :: "int option"
  func_parameters :: "string list option"

record class_info =
  class_name :: string
  class_line :: int

record code_structure =
  st_functions :: "func_info list"
  st_classes :: "class_info list"
  st_imports :: "string list"
  st_complexity :: nat
  lines_of_code :: nat

text \<open>
  A code file as \<open>extract_code_files\<close> builds it. The key \<open>size\<close> is the field
  \<open>file_size\<close>, the key \<open>path\<close> the field \<open>path\<close>.
\<close>

record code_file =
  path :: string
  content :: string
  language :: string
  file_size :: nat

text \<open>
  A text with characters that are not below 256 is a list of code points; \<open>code_points\<close>
  gives those of a \<open>string\<close>.
\<close>

type_synonym unicode = "nat list"

definition code_points :: "string \<Rightarrow> unicode" where
  "code_points s = map of_char s"

section \<open>code\_analyzer.py\<close>

subsection \<open>TreeSitterAnalyzer\<close>

text \<open>
  The tree-sitter library is outside the repository. \<open>parsers\<close> lists the languages for
  which \<open>_setup_languages\<close> stored a parser; \<open>parse_ok lang code\<close> says whether
  \<open>parser.parse\<close> returns for that text (it raises otherwise).
\<close>

record ts_env =
  parsers :: "string list"
  parse_ok :: "string \<Rightarrow> string \<Rightarrow> bool"

definition extract_parameters :: "string \<Rightarrow> string list" where
  "extract_parameters function_line =
     (case nth_or_raise (py_split ''('' function_line) 1 of
        Inl e \<Rightarrow> []
      | Inr rest \<Rightarrow>
          (case nth_or_raise (py_split '')'' rest) 0 of
             Inl e \<Rightarrow> []
           | Inr params_str \<Rightarrow>
               if strip params_str \<noteq> [] then map strip (py_split '','' params_str)
               else []))"

fun python_scan :: "code_structure \<Rightarrow> (nat \<times> string) list \<Rightarrow> py_error + code_structure" where
  "python_scan a [] = Inr a"
| "python_scan a ((i, raw) # rest) =
     (let row = strip raw in
      if prefix ''def '' row then
        (case nth_or_raise (py_split ''('' row) 0 of
           Inl e \<Rightarrow> Inl e
         | Inr h \<Rightarrow>
             python_scan
               (a\<lparr>st_functions := st_functions a @
                    [\<lparr>func_name = replace ''def '' [] h, func_line = Some (int i + 1),
                      func_parameters = Some (extract_parameters row)\<rparr>]\<rparr>) rest)
      else if prefix ''class '' row then
        (case nth_or_raise (py_split ''('' row) 0 of
           Inl e \<Rightarrow> Inl e
         | Inr h \<Rightarrow>
             python_scan
               (a\<lparr>st_classes := st_classes a @
                    [\<lparr>class_name = replace '':'' [] (replace ''class '' [] h),
                      class_line = int i + 1\<rparr>]\<rparr>) rest)
      else if prefix ''import '' row \<or> prefix ''from '' row then
        python_scan (a\<lparr>st_imports := st_imports a @ [row]\<rparr>) rest
      else python_scan a rest)"

fun javascript_scan :: "code_structure \<Rightarrow> (nat \<times> string) list \<Rightarrow> py_error + code_structure" where
  "javascript_scan a [] = Inr a"
| "javascript_scan a ((i, raw) # rest) =
     (let row = strip raw in
      if contains ''function '' row then
        (case nth_or_raise (py_split ''function '' row) 1 of
           Inl e \<Rightarrow> Inl e
         | Inr t \<Rightarrow>
             (case nth_or_raise (py_split ''('' t) 0 of
                Inl e \<Rightarrow> Inl e
              | Inr nm \<Rightarrow>
                  javascript_scan
                    (a\<lparr>st_functions := st_functions a @
                         [\<lparr>func_name = nm, func_line = Some (int i + 1),
                           func_parameters = None\<rparr>]\<rparr>) rest))
      else if prefix ''class '' row then
        (case nth_or_raise (py_split ''class '' row) 1 of
           Inl e \<Rightarrow> Inl e
         | Inr t \<Rightarrow>
             (case nth_or_raise (py_split '' '' t) 0 of
                Inl e \<Rightarrow> Inl e
              | Inr nm \<Rightarrow>
                  javascript_scan
                    (a\<lparr>st_classes := st_classes a @ [\<lparr>class_name = nm, class_line = int i + 1\<rparr>]\<rparr>)
                    rest))
      else javascript_scan a rest)"

definition basic_code_analysis :: "string \<Rightarrow> string \<Rightarrow> py_error + code_structure" where
  "basic_code_analysis code lang =
     (let lines = py_split newline code;
          analysis = \<lparr>st_functions = [], st_classes = [], st_imports = [], st_complexity = 1,
                      lines_of_code = length lines\<rparr>
      in if lang = ''python'' then python_scan analysis (enumerate 0 lines)
         else if lang = ''javascript'' then javascript_scan analysis (enumerate 0 lines)
         else Inr analysis)"

text \<open>
  With a parser that returns, the structure comes from the stub extractors, which return
  empty lists; in every other case from \<open>_basic_code_analysis\<close>.
\<close>

definition analyze_code_structure :: "ts_env \<Rightarrow> string \<Rightarrow> string \<Rightarrow> py_error + code_structure" where
  "analyze_code_structure env code lang =
     (if lang \<in> set (parsers env) \<and> parse_ok env lang code
      then Inr \<lparr>st_functions = [], st_classes = [], st_imports = [], st_complexity = 1,
                lines_of_code = length (py_split newline code)\<rparr>
      else basic_code_analysis code lang)"

subsection \<open>StaticAnalyzer\<close>

definition long_function_issue :: "func_info \<Rightarrow> issue list" where
  "long_function_issue func =
     (case func_line func of
        None \<Rightarrow> []
      | Some l \<Rightarrow>
          (let func_lines = (20 :: nat) in
           if func_lines > 50
           then [mk_issue ''code_quality'' ''MEDIUM'' ''Long Function''
                   (''Function '' @ apostrophe @ func_name func @ apostrophe @ '' is too long (''
                      @ str_nat func_lines @ '' lines)'')
                   l ''Consider breaking this function into smaller, more focused functions'']
           else []))"

definition long_line_issue :: "nat \<times> string \<Rightarrow> issue list" where
  "long_line_issue = (\<lambda>(i, row).
     if length row > 120
     then [mk_issue ''code_quality'' ''LOW'' ''Long Line''
             (''Line '' @ str_nat (i + 1) @ '' exceeds 120 characters ('' @ str_nat (length row)
                @ '' characters)'')
             (int i + 1) ''Break long lines into multiple lines for better readability'']
     else [])"

definition check_code_quality :: "string \<Rightarrow> string \<Rightarrow> code_structure \<Rightarrow> issue list" where
  "check_code_quality code lang struct =
     (let lines = py_split newline code
      in concat (map long_function_issue (st_functions struct))
         @ concat (map long_line_issue (enumerate 0 lines)))"

definition secret_patterns :: "string list" where
  "secret_patterns = [''password'', ''api_key'', ''secret'', ''token'']"

definition secret_issue :: "nat \<Rightarrow> string \<Rightarrow> string \<Rightarrow> issue list" where
  "secret_issue i row pattern =
     (if contains pattern (lower row) \<and> contains ''='' row
         \<and> (contains double_quote row \<or> contains apostrophe row)
      then [mk_issue ''security'' ''HIGH'' ''Potential Hardcoded Secret''
              (''Line '' @ str_nat (i + 1) @ '' may contain a hardcoded secret'')
              (int i + 1) ''Use environment variables or secure configuration for secrets'']
      else [])"

definition secret_issues_line :: "nat \<times> string \<Rightarrow> issue list" where
  "secret_issues_line = (\<lambda>(i, row). concat (map (secret_issue i row) secret_patterns))"

definition eval_issue :: "nat \<times> string \<Rightarrow> issue list" where
  "eval_issue = (\<lambda>(i, row).
     if contains ''eval('' row
     then [mk_issue ''security'' ''CRITICAL'' ''Dangerous eval() Usage''
             (''Line '' @ str_nat (i + 1) @ '' uses eval() which can execute arbitrary code'')
             (int i + 1)
             (''Avoid eval(). Use safer alternatives like ast.literal_eval() ''
                @ ''for simple cases'')]
     else [])"

definition check_security_issues :: "string \<Rightarrow> string \<Rightarrow> issue list" where
  "check_security_issues code lang =
     (let lines = py_split newline code
      in concat (map secret_issues_line (enumerate 0 lines))
         @ (if lang = ''python'' then concat (map eval_issue (enumerate 0 lines)) else []))"

definition loop_issue :: "nat \<times> string \<Rightarrow> issue list" where
  "loop_issue = (\<lambda>(i, row).
     if contains ''for'' row \<and> contains ''range(len('' row
     then [mk_issue ''performance'' ''MEDIUM'' ''Inefficient Loop''
             (''Line '' @ str_nat (i + 1) @ '' uses range(len()) pattern'')
             (int i + 1) ''Use enumerate() or iterate directly over the collection'']
     else [])"

definition check_performance_issues :: "string \<Rightarrow> string \<Rightarrow> code_structure \<Rightarrow> issue list" where
  "check_performance_issues code lang struct =
     (let lines = py_split newline code
      in if lang = ''python'' then concat (map loop_issue (enumerate 0 lines)) else [])"

definition docstring_issue :: "func_info \<Rightarrow> issue" where
  "docstring_issue func =
     mk_issue ''maintainability'' ''LOW'' ''Missing Documentation''
       (''Function '' @ apostrophe @ func_name func @ apostrophe @ '' lacks documentation'')
       (case func_line func of None \<Rightarrow> 1 | Some l \<Rightarrow> l)
       ''Add docstring to explain function purpose, parameters, and return value''"

definition check_maintainability :: "string \<Rightarrow> string \<Rightarrow> code_structure \<Rightarrow> issue list" where
  "check_maintainability code lang struct =
     (if lang = ''python'' then map docstring_issue (st_functions struct) else [])"

definition analyze_file :: "ts_env \<Rightarrow> string \<Rightarrow> string \<Rightarrow> string \<Rightarrow> py_error + issue list" where
  "analyze_file env file_content lang fpath =
     (case analyze_code_structure env file_content lang of
        Inl e \<Rightarrow> Inl e
      | Inr struct \<Rightarrow>
          Inr (map (\<lambda>i. i\<lparr>file_path := Some fpath\<rparr>)
                 (check_code_quality file_content lang struct
                  @ check_security_issues file_content lang
                  @ check_performance_issues file_content lang struct
                  @ check_maintainability file_content lang struct)))"


section \<open>gemini\_analyzer.py\<close>

text \<open>
  The Gemini backend, the command-line client and the JSON library are outside the
  repository. A trace records, in order, every call that has returned, with its result;
  the backend and the client may answer differently depending on the trace so far.
  \<^item> \<open>Generate prompt r\<close>: \<open>model.generate_content(prompt)\<close>; \<open>r\<close> is \<open>Inr\<close> the
    response text, or \<open>Inl\<close> the message of the exception raised.
  \<^item> \<open>RunCli prompt out\<close>: \<open>_analyze_with_cli(prompt)\<close>, which returns the client's
    output, or the empty string on any failure.
  \<^item> \<open>Simulate code lang r\<close>: \<open>simulate_code_execution(code, lang)\<close> returned the dict
    \<open>r\<close>.
\<close>

record simulation =
  simulation_results :: string
  potential_runtime_issues :: "string list option"

datatype event =
    Generate string "string + string"
  | RunCli string string
  | Simulate string string simulation

type_synonym trace = "event list"

text \<open>
  \<open>json_issues s\<close> is the outcome of \<open>json.loads(s)\<close> followed by
  \<open>parsed.get('issues', [])\<close> and the loop over its elements: the issue dicts, a
  \<open>JSONDecodeError\<close>, or another exception (the value is not a dict of issue dicts).
\<close>

datatype json_outcome = JSONDecodeError | OtherJsonError | Issues "issue list"

text \<open>
  After \<open>__init__\<close>: \<open>use_cli\<close> holds only when the client answered the version probe,
  and then \<open>model\<close> is \<open>None\<close>; otherwise \<open>model\<close> is present exactly when an API
  key is configured.
\<close>

record gemini_env =
  use_cli :: bool
  model :: "(trace \<Rightarrow> string \<Rightarrow> string + string) option"
  run_cli :: "trace \<Rightarrow> string \<Rightarrow> string"
  json_issues :: "string \<Rightarrow> json_outcome"

definition generate_content ::
  "(trace \<Rightarrow> string \<Rightarrow> string + string) \<Rightarrow> string \<Rightarrow> trace \<Rightarrow> (string + string) \<times> trace" where
  "generate_content m prompt tr = (let r = m tr prompt in (r, tr @ [Generate prompt r]))"

definition analyze_with_cli :: "gemini_env \<Rightarrow> string \<Rightarrow> trace \<Rightarrow> string \<times> trace" where
  "analyze_with_cli env prompt tr =
     (let out = run_cli env tr prompt in (out, tr @ [RunCli prompt out]))"

definition create_analysis_prompt :: "string \<Rightarrow> string \<Rightarrow> string \<Rightarrow> string" where
  \<open>create_analysis_prompt code lang fpath =
         newline
       @ ''Analyze the following '' @ lang @ '' code for potential issues, bugs, and improvements.'' @ newline
       @ ''File: '' @ fpath @ newline
       @ newline
       @ ''Code:'' @ newline
       @ ''```'' @ lang @ newline
       @ code @ newline
       @ ''```'' @ newline
       @ newline
       @ ''Please identify:'' @ newline
       @ ''1. Logic errors or potential bugs'' @ newline
       @ ''2. Code smell and design issues'' @ newline
       @ ''3. Performance problems'' @ newline
       @ ''4. Security vulnerabilities'' @ newline
       @ ''5. Maintainability concerns'' @ newline
       @ newline
       @ ''For each issue found, provide:'' @ newline
       @ ''- Type of issue'' @ newline
       @ ''- Severity level (CRITICAL, HIGH, MEDIUM, LOW, INFO)'' @ newline
       @ ''- Line number (if applicable)'' @ newline
       @ ''- Description of the problem'' @ newline
       @ ''- Suggested improvement'' @ newline
       @ newline
       @ ''Format your response as JSON with this structure:'' @ newline
       @ ''{'' @ newline
       @ ''    "issues": ['' @ newline
       @ ''        {'' @ newline
       @ ''            "type": "logic_error|security|performance|maintainability|code_smell",'' @ newline
       @ ''            "severity": "CRITICAL|HIGH|MEDIUM|LOW|INFO",'' @ newline
       @ ''            "title": "Brief title",'' @ newline
       @ ''            "description": "Detailed description",'' @ newline
       @ ''            "line": line_number,'' @ newline
       @ ''            "suggestion": "Improvement suggestion"'' @ newline
       @ ''        }'' @ newline
       @ ''    ]'' @ newline
       @ ''}'' @ newline
       @ newline
       @ ''Focus on practical, actionable feedback that will improve code quality.'' @ newline\<close>

text \<open>\<open>s.find(c)\<close> and \<open>s.rfind(c)\<close> for one character: \<open>-1\<close> when absent.\<close>

definition find_char :: "char \<Rightarrow> string \<Rightarrow> int" where
  "find_char c s =
     (if c \<in> set s then int (length (takeWhile (\<lambda>x. x \<noteq> c) s)) else - 1)"

definition rfind_char :: "char \<Rightarrow> string \<Rightarrow> int" where
  "rfind_char c s =
     (if c \<in> set s
      then int (length s) - 1 - int (length (takeWhile (\<lambda>x. x \<noteq> c) (rev s)))
      else - 1)"

text \<open>\<open>s[a:b]\<close> for \<open>a \<ge> 0\<close> and \<open>b \<ge> 0\<close>.\<close>

definition slice :: "string \<Rightarrow> int \<Rightarrow> int \<Rightarrow> string" where
  "slice s a b = take (nat (b - a)) (drop (nat a) s)"

definition issue_keywords :: "string list" where
  "issue_keywords = [''issue:'', ''problem:'', ''bug:'', ''error:'']"

definition text_issue :: "string \<Rightarrow> string \<Rightarrow> issue" where
  "text_issue row fpath =
     \<lparr>issue_type = Some ''logic_error'', severity = Some ''MEDIUM'', title = Some row,
      description = Some row, line = Some 1,
      suggestion = Some ''Review and fix the identified issue'', file_path = Some fpath,
      source = Some ''gemini'', enhanced_suggestion = None\<rparr>"

text \<open>The loop of \<open>_parse_text_response\<close>; \<open>current\<close> is \<open>None\<close> for the empty dict.\<close>

fun parse_text_scan :: "string \<Rightarrow> issue list \<Rightarrow> issue option \<Rightarrow> string list \<Rightarrow> issue list" where
  "parse_text_scan fpath found current [] =
     (case current of None \<Rightarrow> found | Some c \<Rightarrow> found @ [c])"
| "parse_text_scan fpath found current (raw # rest) =
     (let row = strip raw in
      if row = [] then parse_text_scan fpath found current rest
      else if list_ex (\<lambda>keyword. contains keyword (lower row)) issue_keywords
      then parse_text_scan fpath
             (case current of None \<Rightarrow> found | Some c \<Rightarrow> found @ [c])
             (Some (text_issue row fpath)) rest
      else parse_text_scan fpath found current rest)"

definition parse_text_response :: "string \<Rightarrow> string \<Rightarrow> issue list" where
  "parse_text_response response_text fpath =
     parse_text_scan fpath [] None (py_split newline response_text)"

text \<open>\<open>None\<close>: an exception other than \<open>JSONDecodeError\<close> leaves the function.\<close>

definition parse_gemini_response :: "gemini_env \<Rightarrow> string \<Rightarrow> string \<Rightarrow> issue list option" where
  "parse_gemini_response env response_text fpath =
     (let start_idx = find_char (CHR ''{'') response_text;
          end_idx = rfind_char (CHR ''}'') response_text + 1
      in if start_idx \<noteq> - 1 \<and> end_idx \<noteq> - 1
         then (case json_issues env (slice response_text start_idx end_idx) of
                 Issues parsed \<Rightarrow>
                   Some (map (\<lambda>i. i\<lparr>file_path := Some fpath, source := Some ''gemini''\<rparr>) parsed)
               | JSONDecodeError \<Rightarrow> Some (parse_text_response response_text fpath)
               | OtherJsonError \<Rightarrow> None)
         else Some (parse_text_response response_text fpath))"

definition fallback_issue :: "string \<Rightarrow> string \<Rightarrow> string \<Rightarrow> nat \<Rightarrow> string \<Rightarrow> string \<Rightarrow> issue" where
  "fallback_issue sev ttl descr i sugg fpath =
     \<lparr>issue_type = Some ''logic_error'', severity = Some sev, title = Some ttl,
      description = Some descr, line = Some (int i + 1), suggestion = Some sugg,
      file_path = Some fpath, source = Some ''fallback'', enhanced_suggestion = None\<rparr>"

definition fallback_line :: "string \<Rightarrow> string \<Rightarrow> nat \<times> string \<Rightarrow> issue list" where
  "fallback_line lang fpath = (\<lambda>(i, row).
     let line_stripped = strip row in
     if lang = ''python''
     then (if line_stripped = ''except:''
           then [fallback_issue ''MEDIUM'' ''Bare Except Clause''
                   ''Bare except clause catches all exceptions'' i
                   ''Specify the exception type or use Exception'' fpath]
           else [])
          @ (if contains ''/'' line_stripped \<and> \<not> contains ''if'' line_stripped
             then [fallback_issue ''HIGH'' ''Potential Division by Zero''
                     ''Division operation without zero check'' i
                     ''Add validation to ensure divisor is not zero'' fpath]
             else [])
     else [])"

definition fallback_logic_analysis :: "string \<Rightarrow> string \<Rightarrow> string \<Rightarrow> issue list" where
  "fallback_logic_analysis code lang fpath =
     concat (map (fallback_line lang fpath) (enumerate 0 (py_split newline code)))"

definition analyze_with_cli_logic ::
  "gemini_env \<Rightarrow> string \<Rightarrow> string \<Rightarrow> string \<Rightarrow> trace \<Rightarrow> issue list \<times> trace" where
  "analyze_with_cli_logic env code lang fpath tr =
     (let (response_text, tr1) = analyze_with_cli env (create_analysis_prompt code lang fpath) tr
      in if response_text \<noteq> []
         then (case parse_gemini_response env response_text fpath of
                 Some found \<Rightarrow> (found, tr1)
               | None \<Rightarrow> (fallback_logic_analysis code lang fpath, tr1))
         else (fallback_logic_analysis code lang fpath, tr1))"

definition analyze_code_logic ::
  "gemini_env \<Rightarrow> string \<Rightarrow> string \<Rightarrow> string \<Rightarrow> trace \<Rightarrow> issue list \<times> trace" where
  "analyze_code_logic env code lang fpath tr =
     (if use_cli env then analyze_with_cli_logic env code lang fpath tr
      else (case model env of
              None \<Rightarrow> (fallback_logic_analysis code lang fpath, tr)
            | Some m \<Rightarrow>
                (let (response, tr1) = generate_content m (create_analysis_prompt code lang fpath) tr
                 in case response of
                      Inl msg \<Rightarrow> (fallback_logic_analysis code lang fpath, tr1)
                    | Inr response_text \<Rightarrow>
                        (case parse_gemini_response env response_text fpath of
                           Some found \<Rightarrow> (found, tr1)
                         | None \<Rightarrow> (fallback_logic_analysis code lang fpath, tr1)))))"

definition simulation_prompt :: "string \<Rightarrow> string \<Rightarrow> string" where
  "simulation_prompt code lang =
         newline
       @ ''Simulate the execution of this '' @ lang @ '' code and identify potential runtime issues:'' @ newline
       @ newline
       @ ''```'' @ lang @ newline
       @ code @ newline
       @ ''```'' @ newline
       @ newline
       @ ''Consider:'' @ newline
       @ ''1. Null pointer exceptions'' @ newline
       @ ''2. Array/list bounds errors'' @ newline
       @ ''3. Type mismatches'' @ newline
       @ ''4. Resource leaks'' @ newline
       @ ''5. Infinite loops'' @ newline
       @ ''6. Memory issues'' @ newline
       @ newline
       @ ''Provide a brief analysis of what could go wrong during execution.'' @ newline"

definition runtime_keywords :: "string list" where
  "runtime_keywords = [''exception'', ''error'', ''crash'', ''fail'', ''issue'', ''problem'']"

definition extract_runtime_issues :: "string \<Rightarrow> string list" where
  "extract_runtime_issues simulation_text =
     map strip
       (filter (\<lambda>row. list_ex (\<lambda>keyword. contains keyword (lower row)) runtime_keywords)
          (py_split newline simulation_text))"

definition simulate_code_execution ::
  "gemini_env \<Rightarrow> string \<Rightarrow> string \<Rightarrow> trace \<Rightarrow> simulation \<times> trace" where
  "simulate_code_execution env code lang tr =
     (case model env of
        None \<Rightarrow>
          (let r = \<lparr>simulation_results = ''Gemini not available for simulation'',
                    potential_runtime_issues = None\<rparr>
           in (r, tr @ [Simulate code lang r]))
      | Some m \<Rightarrow>
          (let (response, tr1) = generate_content m (simulation_prompt code lang) tr;
               r = (case response of
                      Inl msg \<Rightarrow>
                        \<lparr>simulation_results = ''Simulation failed: '' @ msg,
                         potential_runtime_issues = None\<rparr>
                    | Inr response_text \<Rightarrow>
                        \<lparr>simulation_results = response_text,
                         potential_runtime_issues = Some (extract_runtime_issues response_text)\<rparr>)
           in (r, tr1 @ [Simulate code lang r])))"

text \<open>\<open>sep.join(xs)\<close>.\<close>

fun join :: "string \<Rightarrow> string list \<Rightarrow> string" where
  "join sep [] = []"
| "join sep [x] = x"
| "join sep (x # y # ys) = x @ sep @ join sep (y # ys)"

text \<open>
  The lines of \<open>issues_summary\<close>; \<open>None\<close> is the \<open>KeyError\<close> of an issue without
  \<open>title\<close> or \<open>description\<close>.
\<close>

fun summary_lines :: "issue list \<Rightarrow> string list option" where
  "summary_lines [] = Some []"
| "summary_lines (i # rest) =
     (case title i of
        None \<Rightarrow> None
      | Some t \<Rightarrow>
          (case description i of
             None \<Rightarrow> None
           | Some d \<Rightarrow>
               (case summary_lines rest of
                  None \<Rightarrow> None
                | Some ls \<Rightarrow> Some ((''- '' @ t @ '': '' @ d) # ls))))"

definition enhance_prompt :: "string \<Rightarrow> string \<Rightarrow> string" where
  "enhance_prompt fpath issues_summary =
         newline
       @ ''For the file '' @ fpath @ '', I found these issues:'' @ newline
       @ issues_summary @ newline
       @ newline
       @ ''Please provide detailed, actionable improvement suggestions for each issue.'' @ newline
       @ ''Include specific code examples where helpful.'' @ newline
       @ ''Focus on best practices and modern coding standards.'' @ newline
       @ newline
       @ ''Format as: Issue -> Detailed Suggestion'' @ newline"

text \<open>
  The loop \<open>for i, issue in enumerate(issues)\<close>: the \<open>i\<close>-th issue takes the \<open>i\<close>-th
  line of the response when there is one and it is not blank.
\<close>

fun apply_suggestions :: "issue list \<Rightarrow> string list \<Rightarrow> issue list" where
  "apply_suggestions [] suggestions = []"
| "apply_suggestions (i # rest) [] = i # rest"
| "apply_suggestions (i # rest) (s # suggestions) =
     (if strip s \<noteq> [] then i\<lparr>enhanced_suggestion := Some (strip s)\<rparr> else i)
     # apply_suggestions rest suggestions"

definition enhance_suggestions_for_file ::
  "(trace \<Rightarrow> string \<Rightarrow> string + string) \<Rightarrow> issue list \<Rightarrow> string \<Rightarrow> trace \<Rightarrow> issue list \<times> trace" where
  "enhance_suggestions_for_file m file_issues fpath tr =
     (case summary_lines file_issues of
        None \<Rightarrow> (file_issues, tr)
      | Some ls \<Rightarrow>
          (let (response, tr1) = generate_content m (enhance_prompt fpath (join newline ls)) tr
           in case response of
                Inl msg \<Rightarrow> (file_issues, tr1)
              | Inr response_text \<Rightarrow>
                  (apply_suggestions file_issues (py_split newline response_text), tr1)))"

text \<open>
  \<open>files_issues\<close> is a dict from a file path to the list of its issues; a dict keeps
  its keys in the order of their first insertion.
\<close>

fun group_add :: "string \<Rightarrow> issue \<Rightarrow> (string \<times> issue list) list \<Rightarrow> (string \<times> issue list) list" where
  "group_add k i [] = [(k, [i])]"
| "group_add k i ((k', grp) # rest) =
     (if k = k' then (k', grp @ [i]) # rest else (k', grp) # group_add k i rest)"

definition group_by_file :: "issue list \<Rightarrow> (string \<times> issue list) list" where
  "group_by_file all_issues =
     foldl (\<lambda>files_issues i.
              group_add (case file_path i of None \<Rightarrow> ''unknown'' | Some p \<Rightarrow> p) i files_issues)
       [] all_issues"

fun enhance_groups ::
  "(trace \<Rightarrow> string \<Rightarrow> string + string) \<Rightarrow> issue list \<Rightarrow> (string \<times> issue list) list \<Rightarrow> trace
     \<Rightarrow> issue list \<times> trace" where
  "enhance_groups m enhanced_issues [] tr = (enhanced_issues, tr)"
| "enhance_groups m enhanced_issues ((fpath, file_issues) # rest) tr =
     (let (enhanced, tr1) = enhance_suggestions_for_file m file_issues fpath tr
      in enhance_groups m (enhanced_issues @ enhanced) rest tr1)"

definition generate_improvement_suggestions ::
  "gemini_env \<Rightarrow> issue list \<Rightarrow> trace \<Rightarrow> issue list \<times> trace" where
  "generate_improvement_suggestions env all_issues tr =
     (case model env of
        None \<Rightarrow> (all_issues, tr)
      | Some m \<Rightarrow>
          if all_issues = [] then (all_issues, tr)
          else enhance_groups m [] (group_by_file all_issues) tr)"


section \<open>config.py\<close>

record config =
  SUPPORTED_EXTENSIONS :: "(string \<times> string) list"
  MAX_FILES_TO_ANALYZE :: nat
  MAX_FILE_SIZE :: nat

definition Config :: config where
  "Config =
     \<lparr>SUPPORTED_EXTENSIONS =
        [(''.py'', ''python''), (''.js'', ''javascript''), (''.ts'', ''typescript''),
         (''.java'', ''java''), (''.cpp'', ''cpp''), (''.c'', ''c''), (''.cs'', ''c_sharp''),
         (''.go'', ''go''), (''.rb'', ''ruby''), (''.php'', ''php'')],
      MAX_FILES_TO_ANALYZE = 50,
      MAX_FILE_SIZE = 1024 * 1024\<rparr>"

section \<open>github\_parser.py\<close>

datatype pyval = Str string | Num int | PyNone

record parsed_url =
  owner :: string
  repo :: string
  full_url :: string

text \<open>\<open>Inl\<close> carries the message of the \<open>ValueError\<close> raised.\<close>

definition parse_github_url :: "string \<Rightarrow> string + parsed_url" where
  "parse_github_url url0 =
     (let url = (if suffix ''.git'' url0 then take (length url0 - 4) url0 else url0) in
      if \<not> contains ''github.com'' url
      then Inl (''Failed to parse GitHub URL: '' @ ''Invalid GitHub URL'')
      else
        (let parts = py_split ''/''
               (replace ''http://github.com/'' [] (replace ''https://github.com/'' [] url))
         in case parts of
              p0 # p1 # rest \<Rightarrow>
                Inr \<lparr>owner = p0, repo = p1,
                     full_url = ''https://github.com/'' @ p0 @ ''/'' @ p1 @ ''.git''\<rparr>
            | _ \<Rightarrow> Inl (''Failed to parse GitHub URL: '' @ ''Invalid GitHub URL format'')))"

definition parsed_url_dict :: "parsed_url \<Rightarrow> (string \<rightharpoonup> pyval)" where
  "parsed_url_dict p =
     [''owner'' \<mapsto> Str (owner p), ''repo'' \<mapsto> Str (repo p), ''full_url'' \<mapsto> Str (full_url p)]"

text \<open>
  One entry of \<open>repo_path.rglob('*')\<close>, with what the file system answers for it:
  \<open>stat_size\<close> is \<open>st_size\<close> (\<open>None\<close> when \<open>stat\<close> raises), \<open>read_text\<close> the outcome of
  opening and reading the file as UTF-8.
\<close>

datatype read_outcome = Content string | UnicodeDecodeError | PermissionError | OtherReadError

record fs_entry =
  is_file :: bool
  parts :: "string list"
  file_suffix :: string
  stat_size :: "nat option"
  read_text :: read_outcome
  relative_path :: string

text \<open>
  The network and git are outside the repository: \<open>github_api url\<close> is the status code
  and the JSON body of \<open>requests.get(url)\<close> (\<open>None\<close> when it raises);
  \<open>git_clone url\<close> is the listing of the cloned directory, or \<open>Inl\<close> the message of
  the exception.
\<close>

record github_env =
  github_api :: "string \<Rightarrow> (int \<times> (string \<rightharpoonup> pyval)) option"
  git_clone :: "string \<Rightarrow> string + fs_entry list"

definition dict_get :: "(string \<rightharpoonup> pyval) \<Rightarrow> string \<Rightarrow> pyval \<Rightarrow> pyval" where
  "dict_get d k dflt = (case d k of None \<Rightarrow> dflt | Some v \<Rightarrow> v)"

definition get_repository_info :: "github_env \<Rightarrow> string \<Rightarrow> (string \<rightharpoonup> pyval)" where
  "get_repository_info env url =
     (case parse_github_url url of
        Inl msg \<Rightarrow> Map.empty
      | Inr parsed \<Rightarrow>
          (case github_api env (''https://api.github.com/repos/'' @ owner parsed @ ''/'' @ repo parsed) of
             None \<Rightarrow> Map.empty
           | Some (status_code, repo_data) \<Rightarrow>
               if status_code = 200
               then [''name'' \<mapsto> dict_get repo_data ''name'' (Str []),
                     ''description'' \<mapsto> dict_get repo_data ''description'' (Str []),
                     ''language'' \<mapsto> dict_get repo_data ''language'' (Str []),
                     ''stars'' \<mapsto> dict_get repo_data ''stargazers_count'' (Num 0),
                     ''forks'' \<mapsto> dict_get repo_data ''forks_count'' (Num 0),
                     ''size'' \<mapsto> dict_get repo_data ''size'' (Num 0)]
               else Map.empty))"

definition clone_repository :: "github_env \<Rightarrow> string \<Rightarrow> string + fs_entry list" where
  "clone_repository env url =
     (case git_clone env url of
        Inl msg \<Rightarrow> Inl (''Failed to clone repository: '' @ msg)
      | Inr listing \<Rightarrow> Inr listing)"

text \<open>
  The loop of \<open>extract_code_files\<close>. An exception other than the two caught inside the
  loop reaches the outer handler, which prints it; the files collected so far are
  returned.
\<close>

fun extract_loop :: "config \<Rightarrow> code_file list \<Rightarrow> fs_entry list \<Rightarrow> code_file list" where
  "extract_loop cfg acc [] = acc"
| "extract_loop cfg acc (e # es) =
     (if \<not> is_file e then extract_loop cfg acc es
      else if list_ex (prefix ''.'') (parts e) then extract_loop cfg acc es
      else
        (case map_of (SUPPORTED_EXTENSIONS cfg) (lower (file_suffix e)) of
           None \<Rightarrow> extract_loop cfg acc es
         | Some lang \<Rightarrow>
             (case stat_size e of
                None \<Rightarrow> acc
              | Some sz \<Rightarrow>
                  if sz > MAX_FILE_SIZE cfg then extract_loop cfg acc es
                  else
                    (case read_text e of
                       Content text \<Rightarrow>
                         (let acc' = acc @ [\<lparr>path = relative_path e, content = text,
                                               language = lang, file_size = length text\<rparr>]
                          in if length acc' \<ge> MAX_FILES_TO_ANALYZE cfg then acc'
                             else extract_loop cfg acc' es)
                     | UnicodeDecodeError \<Rightarrow> extract_loop cfg acc es
                     | PermissionError \<Rightarrow> extract_loop cfg acc es
                     | OtherReadError \<Rightarrow> acc))))"

definition extract_code_files :: "fs_entry list \<Rightarrow> code_file list" where
  "extract_code_files listing = extract_loop Config [] listing"

section \<open>pipeline.py\<close>

record summary =
  total_issues :: nat
  files_analyzed :: nat
  overall_score :: rat
  severity_breakdown :: "(string \<times> nat) list"
  issue_types :: "(string \<times> nat) list"

record analysis_metadata =
  static_analysis_issues :: nat
  ai_analysis_issues :: nat
  timestamp :: string

record report =
  repository :: "string \<rightharpoonup> pyval"
  summary :: summary
  issues :: "issue list"
  recommendations :: "unicode list"
  analysis_metadata :: analysis_metadata

text \<open>
  \<open>AnalysisState\<close>. \<open>final_report\<close> is \<open>None\<close> for the empty dict of the initial state;
  \<open>error\<close> is the empty string until a stage records a message.
\<close>

record analysis_state =
  repo_url :: string
  repo_info :: "string \<rightharpoonup> pyval"
  code_files :: "code_file list"
  static_issues :: "issue list"
  ai_issues :: "issue list"
  final_report :: "report option"
  error :: string

text \<open>
  The collaborators of a pipeline. \<open>now\<close> is the clock's answer to
  \<open>datetime.now().isoformat()\<close>. The graph library is outside the repository:
  \<open>invoke_raises\<close> is \<open>Some msg\<close> when \<open>workflow.invoke\<close> raises with that message, and
  otherwise the five nodes run one after the other on the state.
\<close>

record pipeline_env =
  github :: github_env
  tree_sitter :: ts_env
  gemini :: gemini_env
  now :: string
  invoke_raises :: "string option"

text \<open>
  Every node is a \<open>try\<close> block with a handler that stores a message in \<open>error\<close> and
  leaves the rest of the state as it was. The \<open>_try\<close> function of a node is its
  \<open>try\<close> block: \<open>Inr\<close> the state it produces, or \<open>Inl\<close> the message the handler
  stores.
\<close>

definition on_exception :: "string + analysis_state \<Rightarrow> analysis_state \<Rightarrow> analysis_state" where
  "on_exception outcome st = (case outcome of Inl msg \<Rightarrow> st\<lparr>error := msg\<rparr> | Inr st' \<Rightarrow> st')"

definition parse_repository_try :: "pipeline_env \<Rightarrow> analysis_state \<Rightarrow> string + analysis_state" where
  "parse_repository_try env st =
     (let info = get_repository_info (github env) (repo_url st) in
      case parse_github_url (repo_url st) of
        Inl msg \<Rightarrow> Inl (''Failed to parse repository: '' @ msg)
      | Inr parsed \<Rightarrow> Inr (st\<lparr>repo_info := info ++ parsed_url_dict parsed\<rparr>))"

definition parse_repository :: "pipeline_env \<Rightarrow> analysis_state \<Rightarrow> analysis_state" where
  "parse_repository env st = on_exception (parse_repository_try env st) st"

definition extract_code_files_try :: "pipeline_env \<Rightarrow> analysis_state \<Rightarrow> string + analysis_state" where
  "extract_code_files_try env st =
     (case clone_repository (github env) (repo_url st) of
        Inl msg \<Rightarrow> Inl (''Failed to extract code files: '' @ msg)
      | Inr listing \<Rightarrow> Inr (st\<lparr>code_files := extract_code_files listing\<rparr>))"

definition extract_code_files_stage :: "pipeline_env \<Rightarrow> analysis_state \<Rightarrow> analysis_state" where
  "extract_code_files_stage env st = on_exception (extract_code_files_try env st) st"

definition str_error :: "py_error \<Rightarrow> string" where
  "str_error e = (case e of IndexError \<Rightarrow> ''list index out of range'')"

fun static_loop :: "ts_env \<Rightarrow> issue list \<Rightarrow> code_file list \<Rightarrow> py_error + issue list" where
  "static_loop env all_issues [] = Inr all_issues"
| "static_loop env all_issues (file_info # rest) =
     (case analyze_file env (content file_info) (language file_info) (path file_info) of
        Inl e \<Rightarrow> Inl e
      | Inr found \<Rightarrow> static_loop env (all_issues @ found) rest)"

definition run_static_analysis_try :: "pipeline_env \<Rightarrow> analysis_state \<Rightarrow> string + analysis_state" where
  "run_static_analysis_try env st =
     (case static_loop (tree_sitter env) [] (code_files st) of
        Inl e \<Rightarrow> Inl (''Static analysis failed: '' @ str_error e)
      | Inr all_issues \<Rightarrow> Inr (st\<lparr>static_issues := all_issues\<rparr>))"

definition run_static_analysis :: "pipeline_env \<Rightarrow> analysis_state \<Rightarrow> analysis_state" where
  "run_static_analysis env st = on_exception (run_static_analysis_try env st) st"

definition runtime_issue :: "string \<Rightarrow> string \<Rightarrow> issue" where
  "runtime_issue fpath issue_text =
     \<lparr>issue_type = Some ''runtime_risk'', severity = Some ''MEDIUM'',
      title = Some ''Potential Runtime Issue'', description = Some issue_text,
      line = Some 1, suggestion = Some ''Review code for runtime safety'',
      file_path = Some fpath, source = Some ''gemini_simulation'',
      enhanced_suggestion = None\<rparr>"

text \<open>The loop over \<open>files_to_analyze\<close>; it returns \<open>all_ai_issues\<close>.\<close>

fun ai_loop :: "gemini_env \<Rightarrow> issue list \<Rightarrow> code_file list \<Rightarrow> trace \<Rightarrow> issue list \<times> trace" where
  "ai_loop env all_ai_issues [] tr = (all_ai_issues, tr)"
| "ai_loop env all_ai_issues (file_info # rest) tr =
     (let (logic_issues, tr1) =
            analyze_code_logic env (content file_info) (language file_info) (path file_info) tr;
          acc = all_ai_issues @ logic_issues
      in if length (content file_info) < 5000
         then (let (simulation, tr2) =
                     simulate_code_execution env (content file_info) (language file_info) tr1;
                   runtime_issues = (case potential_runtime_issues simulation of
                                       None \<Rightarrow> [] | Some texts \<Rightarrow> texts)
               in ai_loop env (acc @ map (runtime_issue (path file_info)) runtime_issues) rest tr2)
         else ai_loop env acc rest tr1)"

text \<open>
  Nothing in the \<open>try\<close> block of \<open>_run_ai_analysis\<close> raises: the three analyzer methods
  catch their own exceptions. The same holds for \<open>_generate_final_report\<close> below.
\<close>

definition run_ai_analysis_try :: "pipeline_env \<Rightarrow> analysis_state \<Rightarrow> string + analysis_state" where
  "run_ai_analysis_try env st =
     (let files_to_analyze = take 10 (code_files st);
          (all_ai_issues, tr1) = ai_loop (gemini env) [] files_to_analyze [];
          all_issues = static_issues st @ all_ai_issues;
          (enhanced_issues, tr2) = generate_improvement_suggestions (gemini env) all_issues tr1
      in Inr (st\<lparr>static_issues := take (length (static_issues st)) enhanced_issues,
                 ai_issues := drop (length (static_issues st)) enhanced_issues\<rparr>))"

definition run_ai_analysis :: "pipeline_env \<Rightarrow> analysis_state \<Rightarrow> analysis_state" where
  "run_ai_analysis env st = on_exception (run_ai_analysis_try env st) st"

text \<open>
  A dict of counters, as the list of its items in insertion order. \<open>bump k d\<close> is
  \<open>d[k] = d.get(k, 0) + 1\<close>; \<open>lookup d k\<close> is \<open>d.get(k, 0)\<close>, and \<open>d[k]\<close> for a key
  that is present.
\<close>

fun bump :: "string \<Rightarrow> (string \<times> nat) list \<Rightarrow> (string \<times> nat) list" where
  "bump k [] = [(k, 1)]"
| "bump k ((k', v) # rest) =
     (if k = k' then (k', v + 1) # rest else (k', v) # bump k rest)"

definition has_key :: "(string \<times> nat) list \<Rightarrow> string \<Rightarrow> bool" where
  "has_key d k = (k \<in> set (map fst d))"

definition lookup :: "(string \<times> nat) list \<Rightarrow> string \<Rightarrow> nat" where
  "lookup d k = (case map_of d k of None \<Rightarrow> 0 | Some v \<Rightarrow> v)"

text \<open>\<open>issue.get('severity', 'MEDIUM')\<close> and \<open>issue.get('type', 'unknown')\<close>.\<close>

definition get_severity :: "issue \<Rightarrow> string" where
  "get_severity i = (case severity i of None \<Rightarrow> ''MEDIUM'' | Some s \<Rightarrow> s)"

definition get_type :: "issue \<Rightarrow> string" where
  "get_type i = (case issue_type i of None \<Rightarrow> ''unknown'' | Some t \<Rightarrow> t)"

definition count_severity :: "(string \<times> nat) list \<Rightarrow> issue \<Rightarrow> (string \<times> nat) list" where
  "count_severity severity_counts i =
     (if has_key severity_counts (get_severity i) then bump (get_severity i) severity_counts
      else severity_counts)"

definition count_type :: "(string \<times> nat) list \<Rightarrow> issue \<Rightarrow> (string \<times> nat) list" where
  "count_type type_counts i = bump (get_type i) type_counts"

text \<open>The recommendation texts, with the code points of their pictographs.\<close>

definition rec_critical :: unicode where
  "rec_critical =
     [128680, 32] @ code_points ''Address critical security and logic issues immediately''"

definition rec_high :: unicode where
  "rec_high =
     [9888, 65039, 32]
     @ code_points ''High number of high-severity issues detected - consider code review''"

definition rec_security :: unicode where
  "rec_security =
     [128274, 32] @ code_points ''Implement security best practices and input validation''"

definition rec_performance :: unicode where
  "rec_performance =
     [9889, 32] @ code_points ''Optimize performance bottlenecks for better efficiency''"

definition rec_maintainability :: unicode where
  "rec_maintainability =
     [128218, 32] @ code_points ''Improve code documentation and maintainability''"

definition rec_looks_good :: unicode where
  "rec_looks_good =
     [9989, 32]
     @ code_points
         ''Code quality looks good! Consider regular analysis for continuous improvement''"

definition generate_recommendations :: "issue list \<Rightarrow> unicode list" where
  "generate_recommendations all_issues =
     (let (type_counts, severity_counts) =
            foldl (\<lambda>(tc, sc) i. (count_type tc i, count_severity sc i))
              ([], [(''CRITICAL'', 0), (''HIGH'', 0), (''MEDIUM'', 0), (''LOW'', 0)]) all_issues;
          r1 = (if lookup severity_counts ''CRITICAL'' > 0 then [rec_critical] else []);
          r2 = r1 @ (if lookup severity_counts ''HIGH'' > 3 then [rec_high] else []);
          r3 = r2 @ (if lookup type_counts ''security'' > 0 then [rec_security] else []);
          r4 = r3 @ (if lookup type_counts ''performance'' > 2 then [rec_performance] else []);
          r5 = r4 @ (if lookup type_counts ''maintainability'' > 5 then [rec_maintainability]
                     else [])
      in if r5 = [] then [rec_looks_good] else r5)"

text \<open>
  Python's floats are modelled by exact rationals. \<open>round1 x\<close> is \<open>round(x, 1)\<close>: the
  nearest multiple of one tenth, a tie going to the even one.
\<close>

definition round1 :: "rat \<Rightarrow> rat" where
  "round1 x =
     (let y = x * 10; f = \<lfloor>y\<rfloor>; d = y - of_int f
      in of_int (if d < 1 / 2 then f else if 1 / 2 < d then f + 1
                 else if even f then f else f + 1) / 10)"

text \<open>The dict \<open>report\<close> that \<open>_generate_final_report\<close> builds.\<close>

definition build_report :: "pipeline_env \<Rightarrow> analysis_state \<Rightarrow> report" where
  "build_report env st =
     (let all_issues = static_issues st @ ai_issues st;
          severity_counts =
            foldl count_severity
              [(''CRITICAL'', 0), (''HIGH'', 0), (''MEDIUM'', 0), (''LOW'', 0), (''INFO'', 0)]
              all_issues;
          type_counts = foldl count_type [] all_issues;
          total = length all_issues;
          critical_weight = lookup severity_counts ''CRITICAL'' * 10;
          high_weight = lookup severity_counts ''HIGH'' * 5;
          medium_weight = lookup severity_counts ''MEDIUM'' * 2;
          low_weight = lookup severity_counts ''LOW'' * 1;
          penalty_score = critical_weight + high_weight + medium_weight + low_weight;
          code_files_count = length (code_files st);
          base_score =
            (if code_files_count > 0
             then max 0 (100 - (of_nat penalty_score / of_nat code_files_count * 10))
             else if total = 0 then 100 else 50)
      in \<lparr>repository = repo_info st,
          summary = \<lparr>total_issues = total,
                     files_analyzed = length (code_files st),
                     overall_score = round1 base_score,
                     severity_breakdown = severity_counts,
                     issue_types = type_counts\<rparr>,
          issues = all_issues,
          recommendations = generate_recommendations all_issues,
          analysis_metadata = \<lparr>static_analysis_issues = length (static_issues st),
                                ai_analysis_issues = length (ai_issues st),
                                timestamp = now env\<rparr>\<rparr>)"

definition generate_final_report_try :: "pipeline_env \<Rightarrow> analysis_state \<Rightarrow> string + analysis_state" where
  "generate_final_report_try env st = Inr (st\<lparr>final_report := Some (build_report env st)\<rparr>)"

definition generate_final_report :: "pipeline_env \<Rightarrow> analysis_state \<Rightarrow> analysis_state" where
  "generate_final_report env st = on_exception (generate_final_report_try env st) st"

definition initial_state :: "string \<Rightarrow> analysis_state" where
  "initial_state url =
     \<lparr>repo_url = url, repo_info = Map.empty, code_files = [], static_issues = [],
      ai_issues = [], final_report = None, error = []\<rparr>"

text \<open>The compiled graph: five nodes on one path.\<close>

definition workflow :: "pipeline_env \<Rightarrow> analysis_state \<Rightarrow> analysis_state" where
  "workflow env st =
     generate_final_report env
       (run_ai_analysis env
          (run_static_analysis env
             (extract_code_files_stage env
                (parse_repository env st))))"

text \<open>The dict \<open>analyze\<close> returns; \<open>None\<close> is Python's \<open>None\<close>.\<close>

record analysis_result =
  success :: bool
  result_error :: "string option"
  result_report :: "report option"

definition analyze :: "pipeline_env \<Rightarrow> string \<Rightarrow> analysis_result" where
  "analyze env url =
     (case invoke_raises env of
        Some msg \<Rightarrow>
          \<lparr>success = False, result_error = Some (''Pipeline execution failed: '' @ msg),
           result_report = None\<rparr>
      | None \<Rightarrow>
          (let final_state = workflow env (initial_state url) in
           if error final_state \<noteq> []
           then \<lparr>success = False, result_error = Some (error final_state),
                 result_report = None\<rparr>
           else \<lparr>success = True, result_error = None,
                 result_report = final_report final_state\<rparr>))"


section \<open>Reference values for the statements\<close>

text \<open>
  The issue that \<open>analyze_file\<close> reports for a long line, and for a hardcoded secret, with
  every field written out; and the keywords of \<open>password, api_key, secret, token\<close>
  that a line matches, none unless the line has an equals sign and a quote character.
\<close>

definition long_line_report :: "string \<Rightarrow> nat \<times> string \<Rightarrow> issue" where
  "long_line_report p = (\<lambda>(i, row).
     \<lparr>issue_type = Some ''code_quality'', severity = Some ''LOW'', title = Some ''Long Line'',
      description = Some (''Line '' @ str_nat (i + 1) @ '' exceeds 120 characters (''
                           @ str_nat (length row) @ '' characters)''),
      line = Some (int i + 1),
      suggestion = Some ''Break long lines into multiple lines for better readability'',
      file_path = Some p, source = None, enhanced_suggestion = None\<rparr>)"



text \<open>
  The five severity levels, and the number of issues of a list whose severity, read as
  \<open>issue.get('severity', 'MEDIUM')\<close>, or whose type, read as
  \<open>issue.get('type', 'unknown')\<close>, is a given value.
\<close>

definition severity_levels :: "string list" where
  "severity_levels = [''CRITICAL'', ''HIGH'', ''MEDIUM'', ''LOW'', ''INFO'']"

definition count_with_severity :: "issue list \<Rightarrow> string \<Rightarrow> nat" where
  "count_with_severity all_issues k = length (filter (\<lambda>i. get_severity i = k) all_issues)"

definition count_with_type :: "issue list \<Rightarrow> string \<Rightarrow> nat" where
  "count_with_type all_issues k = length (filter (\<lambda>i. get_type i = k) all_issues)"



text \<open>
  The number of issues that carry a given severity, and a given category, read from the
  fields themselves.
\<close>

definition issues_of_severity :: "issue list \<Rightarrow> string \<Rightarrow> nat" where
  "issues_of_severity all_issues k = length (filter (\<lambda>i. severity i = Some k) all_issues)"

definition issues_of_category :: "issue list \<Rightarrow> string \<Rightarrow> nat" where
  "issues_of_category all_issues k = length (filter (\<lambda>i. issue_type i = Some k) all_issues)"

definition spec_recommendations :: "issue list \<Rightarrow> unicode list" where
  "spec_recommendations all_issues =
     (let triggered =
            (if issues_of_severity all_issues ''CRITICAL'' > 0 then [rec_critical] else [])
            @ (if issues_of_severity all_issues ''HIGH'' > 3 then [rec_high] else [])
            @ (if issues_of_category all_issues ''security'' > 0 then [rec_security] else [])
            @ (if issues_of_category all_issues ''performance'' > 2 then [rec_performance]
               else [])
            @ (if issues_of_category all_issues ''maintainability'' > 5
               then [rec_maintainability] else [])
      in if triggered = [] then [rec_looks_good] else triggered)"

section \<open>Example inputs\<close>

definition example_ts_env :: ts_env where
  "example_ts_env = \<lparr>parsers = [], parse_ok = (\<lambda>lang code. False)\<rparr>"

definition example_gemini_env :: gemini_env where
  "example_gemini_env =
     \<lparr>use_cli = False, model = None, run_cli = (\<lambda>tr prompt. []),
      json_issues = (\<lambda>s. JSONDecodeError)\<rparr>"

definition example_github_env :: github_env where
  "example_github_env = \<lparr>github_api = (\<lambda>url. None), git_clone = (\<lambda>url. Inr [])\<rparr>"

definition example_env :: pipeline_env where
  "example_env =
     \<lparr>github = example_github_env, tree_sitter = example_ts_env, gemini = example_gemini_env,
      now = ''2024-01-01T00:00:00'', invoke_raises = None\<rparr>"

definition critical_issue :: issue where
  "critical_issue =
     (mk_issue ''security'' ''CRITICAL'' ''Dangerous eval() Usage''
        ''Line 1 uses eval() which can execute arbitrary code'' 1
        ''Avoid eval()'')\<lparr>file_path := Some ''a.py''\<rparr>"

definition low_issue :: issue where
  "low_issue =
     (mk_issue ''code_quality'' ''LOW'' ''Long Line'' ''Line 1 exceeds 120 characters'' 1
        ''Break long lines'')\<lparr>file_path := Some ''a.py''\<rparr>"

text \<open>An issue as the backend may return it, with a severity outside the five levels.\<close>

definition blocker_issue :: issue where
  "blocker_issue =
     \<lparr>issue_type = Some ''security'', severity = Some ''BLOCKER'', title = Some ''Injection'',
      description = Some ''Unsanitised input'', line = Some 3, suggestion = Some ''Escape it'',
      file_path = Some ''a.py'', source = Some ''gemini'', enhanced_suggestion = None\<rparr>"

definition one_file :: "code_file list" where
  "one_file = [\<lparr>path = ''a.py'', content = ''eval(x)'', language = ''python'', file_size = 7\<rparr>]"


definition blocker_state :: analysis_state where
  "blocker_state =
     (initial_state ''https://github.com/o/r'')
       \<lparr>code_files := one_file, ai_issues := [blocker_issue]\<rparr>"

text \<open>
  A text whose third line has 130 characters, and a text whose second line assigns a
  quoted value and names three of the secret keywords.
\<close>

definition long_line_example :: string where
  "long_line_example =
     ''package m'' @ [CHR 0x0A] @ ''// a long line follows'' @ [CHR 0x0A]
     @ ''xxxxxxxxxxxxxxxxxxxxxxxxxxxxxxxxxxxxxxxxxxxxxxxxxxxxxxxxxxxxxxxxxxxxxxxxxxxxxxxxxxxxxxxxxxxxxxxxxxxxxxxxxxxxxxxxxxxxxxxxxxxxxxxxxx''"



text \<open>
  Eleven issues that trigger every rule: six of category maintainability, three of
  category performance with severity HIGH, and two of category security, one CRITICAL and
  one HIGH.
\<close>

definition category_issue :: "string \<Rightarrow> string \<Rightarrow> issue" where
  "category_issue category sev =
     (mk_issue category sev ''Finding'' ''A finding'' 1 ''Fix it'')\<lparr>file_path := Some ''a.py''\<rparr>"

definition all_rules_issues :: "issue list" where
  "all_rules_issues =
     replicate 6 (category_issue ''maintainability'' ''LOW'')
     @ replicate 3 (category_issue ''performance'' ''HIGH'')
     @ [category_issue ''security'' ''CRITICAL'', category_issue ''security'' ''HIGH'']"

section \<open>Reference values for the extraction\<close>








section \<open>Reference values for the pipeline\<close>

text \<open>
  The state after each of the first four nodes of a run, and the messages that the
  handlers of the five nodes store during the run, in the order of the nodes.
\<close>

definition after_parse :: "pipeline_env \<Rightarrow> string \<Rightarrow> analysis_state" where
  "after_parse env url = parse_repository env (initial_state url)"

definition after_extract :: "pipeline_env \<Rightarrow> string \<Rightarrow> analysis_state" where
  "after_extract env url = extract_code_files_stage env (after_parse env url)"

definition after_static :: "pipeline_env \<Rightarrow> string \<Rightarrow> analysis_state" where
  "after_static env url = run_static_analysis env (after_extract env url)"

definition after_ai :: "pipeline_env \<Rightarrow> string \<Rightarrow> analysis_state" where
  "after_ai env url = run_ai_analysis env (after_static env url)"

fun message :: "string + analysis_state \<Rightarrow> string list" where
  "message (Inl msg) = [msg]"
| "message (Inr st) = []"

definition recorded_errors :: "pipeline_env \<Rightarrow> string \<Rightarrow> string list" where
  "recorded_errors env url =
     message (parse_repository_try env (initial_state url))
     @ message (extract_code_files_try env (after_parse env url))
     @ message (run_static_analysis_try env (after_extract env url))
     @ message (run_ai_analysis_try env (after_static env url))
     @ message (generate_final_report_try env (after_ai env url))"

text \<open>An environment in which cloning fails.\<close>

definition clone_fails_env :: pipeline_env where
  "clone_fails_env =
     example_env\<lparr>github := \<lparr>github_api = (\<lambda>url. None),
                               git_clone = (\<lambda>url. Inl ''repository not found'')\<rparr>\<rparr>"

section \<open>Reference values for the AI stage\<close>

text \<open>
  The calls of \<open>simulate_code_execution\<close> that a trace records, with their results; the
  texts a simulation reports, read as \<open>simulation.get("potential_runtime_issues", [])\<close>;
  the issues that come from a simulation; the code files below the size threshold; and
  the issues into which the loop converts what one call reported for one file.
\<close>

fun simulate_calls :: "trace \<Rightarrow> (string \<times> string \<times> simulation) list" where
  "simulate_calls [] = []"
| "simulate_calls (Simulate code lang r # tr) = (code, lang, r) # simulate_calls tr"
| "simulate_calls (Generate prompt r # tr) = simulate_calls tr"
| "simulate_calls (RunCli prompt out # tr) = simulate_calls tr"

definition reported :: "simulation \<Rightarrow> string list" where
  "reported r = (case potential_runtime_issues r of None \<Rightarrow> [] | Some texts \<Rightarrow> texts)"

definition from_simulation :: "issue \<Rightarrow> bool" where
  "from_simulation i = (source i = Some ''gemini_simulation'')"

definition small_files :: "code_file list \<Rightarrow> code_file list" where
  "small_files files = filter (\<lambda>f. length (content f) < 5000) files"

definition call_args :: "string \<times> string \<times> simulation \<Rightarrow> string \<times> string" where
  "call_args = (\<lambda>(code, lang, r). (code, lang))"

definition converted :: "code_file \<times> string \<times> string \<times> simulation \<Rightarrow> issue list" where
  "converted = (\<lambda>(file_info, code, lang, r). map (runtime_issue (path file_info)) (reported r))"

text \<open>An issue with its enrichment field cleared.\<close>

definition without_enhancement :: "issue \<Rightarrow> issue" where
  "without_enhancement i = i\<lparr>enhanced_suggestion := None\<rparr>"

text \<open>
  A backend that answers every prompt with the line \<open>error: x\<close>, an analyzer that uses
  it through the API, and an issue of a second file.
\<close>

definition echo_model :: "trace \<Rightarrow> string \<Rightarrow> string + string" where
  "echo_model tr prompt = Inr ''error: x''"

definition api_env :: gemini_env where
  "api_env =
     \<lparr>use_cli = False, model = Some echo_model, run_cli = (\<lambda>tr prompt. []),
      json_issues = (\<lambda>s. JSONDecodeError)\<rparr>"

definition other_file_issue :: issue where
  "other_file_issue =
     (mk_issue ''performance'' ''MEDIUM'' ''Inefficient Loop'' ''Line 4 uses range(len()) pattern'' 4
        ''Use enumerate()'')\<lparr>file_path := Some ''b.py''\<rparr>"

text \<open>Two small files, a pipeline on the answering backend, and a state before the AI stage.\<close>

definition two_files :: "code_file list" where
  "two_files =
     [\<lparr>path = ''a.py'', content = ''eval(x)'', language = ''python'', file_size = 7\<rparr>,
      \<lparr>path = ''b.py'', content = ''y = 2'', language = ''python'', file_size = 5\<rparr>]"

definition api_pipeline_env :: pipeline_env where
  "api_pipeline_env = example_env\<lparr>gemini := api_env\<rparr>"

definition two_files_state :: analysis_state where
  "two_files_state =
     (initial_state ''https://github.com/o/r'')
       \<lparr>code_files := two_files, static_issues := [low_issue, other_file_issue]\<rparr>"


section \<open>Properties of the static analyzer\<close>

subsection \<open>The structural summary never raises\<close>

lemma py_split_acc_nonempty: "py_split_acc sep acc s \<noteq> []"
  by (induction sep acc s rule: py_split_acc.induct) auto

lemma py_split_nonempty: "py_split sep s \<noteq> []"
  by (simp add: py_split_def py_split_acc_nonempty)

lemma py_split_acc_two:
  "sep \<noteq> [] \<Longrightarrow> contains sep s \<Longrightarrow> 2 \<le> length (py_split_acc sep acc s)"
proof (induction sep acc s rule: py_split_acc.induct)
  case (1 sep acc)
  then show ?case by simp
next
  case (2 sep acc x xs)
  show ?case
  proof (cases "prefix sep (x # xs)")
    case True
    have "py_split_acc sep [] (drop (length sep) (x # xs)) \<noteq> []"
      by (rule py_split_acc_nonempty)
    then have "1 \<le> length (py_split_acc sep [] (drop (length sep) (x # xs)))"
      by (cases "py_split_acc sep [] (drop (length sep) (x # xs))") auto
    with True "2.prems" show ?thesis by simp
  next
    case False
    with "2.prems" have "contains sep xs" by simp
    with False "2.prems" "2.IH"(2) show ?thesis by simp
  qed
qed

lemma nth_or_raise_0: "xs \<noteq> [] \<Longrightarrow> \<exists>y. nth_or_raise xs 0 = Inr y"
  by (cases xs) auto

lemma nth_or_raise_1: "2 \<le> length xs \<Longrightarrow> \<exists>y. nth_or_raise xs 1 = Inr y"
  by (cases xs; cases "tl xs") auto

lemma prefix_contains: "prefix sub s \<Longrightarrow> contains sub s"
  by (cases s) auto

lemma split_first: "\<exists>y. nth_or_raise (py_split sep s) 0 = Inr y"
  by (rule nth_or_raise_0) (rule py_split_nonempty)

lemma split_second:
  "sep \<noteq> [] \<Longrightarrow> contains sep s \<Longrightarrow> \<exists>y. nth_or_raise (py_split sep s) 1 = Inr y"
  by (rule nth_or_raise_1) (simp add: py_split_def py_split_acc_two)

lemma python_scan_total: "\<exists>st. python_scan a xs = Inr st"
proof (induction a xs rule: python_scan.induct)
  case (1 a)
  then show ?case by simp
next
  case (2 a i raw rest)
  obtain h where h: "nth_or_raise (py_split ''('' (strip raw)) 0 = Inr h"
    using split_first by blast
  show ?case
    using 2 h by (simp add: Let_def)
qed

lemma javascript_scan_total: "\<exists>st. javascript_scan a xs = Inr st"
proof (induction a xs rule: javascript_scan.induct)
  case (1 a)
  then show ?case by simp
next
  case (2 a i raw rest)
  show ?case
  proof (cases "contains ''function '' (strip raw)")
    case True
    then obtain t where t: "nth_or_raise (py_split ''function '' (strip raw)) 1 = Inr t"
      using split_second [of "''function ''" "strip raw"] by auto
    obtain nm where nm: "nth_or_raise (py_split ''('' t) 0 = Inr nm"
      using split_first by blast
    show ?thesis using True t nm "2.IH"(1) by (simp add: Let_def)
  next
    case False
    show ?thesis
    proof (cases "prefix ''class '' (strip raw)")
      case True
      then have "contains ''class '' (strip raw)" by (rule prefix_contains)
      then obtain t where t: "nth_or_raise (py_split ''class '' (strip raw)) 1 = Inr t"
        using split_second [of "''class ''" "strip raw"] by auto
      obtain nm where nm: "nth_or_raise (py_split '' '' t) 0 = Inr nm"
        using split_first by blast
      show ?thesis using False True t nm "2.IH"(2) by (simp add: Let_def)
    next
      case False2: False
      show ?thesis using False False2 "2.IH"(3) by (simp add: Let_def)
    qed
  qed
qed

lemma basic_code_analysis_total: "\<exists>st. basic_code_analysis code lang = Inr st"
  by (simp add: basic_code_analysis_def Let_def python_scan_total javascript_scan_total)

lemma analyze_code_structure_total: "\<exists>st. analyze_code_structure env code lang = Inr st"
  by (simp add: analyze_code_structure_def basic_code_analysis_total)

lemma long_function_issue_empty: "long_function_issue func = []"
  by (simp add: long_function_issue_def split: option.splits)

lemma concat_long_function_empty: "concat (map long_function_issue fs) = []"
  by (simp add: long_function_issue_empty)

subsection \<open>The titles of the static checks\<close>

lemma filter_concat_map: "filter P (concat (map f xs)) = concat (map (\<lambda>x. filter P (f x)) xs)"
  by (induction xs) auto

lemma title_mk_issue [simp]: "title (mk_issue t sev ttl d l s) = Some ttl"
  by (simp add: mk_issue_def)

lemma line_mk_issue [simp]: "line (mk_issue t sev ttl d l s) = Some l"
  by (simp add: mk_issue_def)

lemma filter_title_stamp:
  "filter (\<lambda>i. title i = t) (map (\<lambda>i. i\<lparr>file_path := Some p\<rparr>) xs)
     = map (\<lambda>i. i\<lparr>file_path := Some p\<rparr>) (filter (\<lambda>i. title i = t) xs)"
  by (induction xs) auto

lemma quality_no_long_function:
  "filter (\<lambda>i. title i = Some ''Long Function'') (check_code_quality c l st) = []"
  by (simp add: check_code_quality_def Let_def long_function_issue_empty filter_concat_map
      long_line_issue_def split_def)

lemma security_no_long_function:
  "filter (\<lambda>i. title i = Some ''Long Function'') (check_security_issues c l) = []"
  by (simp add: check_security_issues_def Let_def filter_concat_map secret_issues_line_def
      secret_issue_def eval_issue_def split_def)

lemma performance_no_long_function:
  "filter (\<lambda>i. title i = Some ''Long Function'') (check_performance_issues c l st) = []"
  by (simp add: check_performance_issues_def Let_def filter_concat_map loop_issue_def split_def)

lemma maintainability_no_long_function:
  "filter (\<lambda>i. title i = Some ''Long Function'') (check_maintainability c l st) = []"
  by (simp add: check_maintainability_def docstring_issue_def filter_map comp_def)

text \<open>
  C9. For every code unit, every language tag and every behaviour of the parser library,
  \<open>analyze_file\<close> returns an issue list, and no issue in it is titled "Long Function":
  the estimate of a function's length is the constant 20, which never exceeds 50.
\<close>

theorem analyze_file_no_long_function:
  "\<exists>issues. analyze_file env c l p = Inr issues
     \<and> filter (\<lambda>i. title i = Some ''Long Function'') issues = []"
proof -
  obtain st where st: "analyze_code_structure env c l = Inr st"
    using analyze_code_structure_total by blast
  show ?thesis
    by (simp add: analyze_file_def st filter_title_stamp quality_no_long_function
        security_no_long_function performance_no_long_function
        maintainability_no_long_function)
qed

subsection \<open>Long lines and hardcoded secrets\<close>



lemma join_cons: "rest \<noteq> [] \<Longrightarrow> join sep (a # rest) = a @ sep @ join sep rest"
  by (cases rest) auto

lemma join_split_acc: "sep \<noteq> [] \<Longrightarrow> join sep (py_split_acc sep acc s) = rev acc @ s"
proof (induction sep acc s rule: py_split_acc.induct)
  case (1 sep acc)
  then show ?case by simp
next
  case (2 sep acc x xs)
  show ?case
  proof (cases "prefix sep (x # xs)")
    case True
    then have d: "sep @ drop (length sep) (x # xs) = x # xs"
      by (metis append_eq_conv_conj prefix_def)
    have "join sep (py_split_acc sep acc (x # xs))
            = rev acc @ sep @ join sep (py_split_acc sep [] (drop (length sep) (x # xs)))"
      using True "2.prems" by (simp add: join_cons py_split_acc_nonempty)
    also have "\<dots> = rev acc @ sep @ drop (length sep) (x # xs)"
      using True "2.prems" "2.IH"(1) by simp
    finally show ?thesis using d by simp
  next
    case False
    then show ?thesis using "2.prems" "2.IH"(2) by simp
  qed
qed

lemma split_acc_no_separator:
  "c \<notin> set acc \<Longrightarrow> list_all (\<lambda>row. c \<notin> set row) (py_split_acc [c] acc s)"
proof (induction "[c]" acc s rule: py_split_acc.induct)
  case (1 acc)
  then show ?case by simp
next
  case (2 acc x xs)
  then show ?case by (cases "x = c") auto
qed

text \<open>
  The lines of a text: joined by line feeds they give the text back, and none contains a
  line feed.
\<close>

lemma lines_characterised:
  "join [CHR 0x0A] (py_split newline c) = c
   \<and> list_all (\<lambda>row. CHR 0x0A \<notin> set row) (py_split newline c)"
  by (simp add: py_split_def newline_def join_split_acc split_acc_no_separator)

lemma concat_map_if_singleton:
  "concat (map (\<lambda>x. if P x then [f x] else []) xs) = map f (filter P xs)"
  by (induction xs) auto

lemma quality_long_line:
  "filter (\<lambda>i. title i = Some ''Long Line'') (check_code_quality c l st)
     = concat (map long_line_issue (enumerate 0 (py_split newline c)))"
  by (simp add: check_code_quality_def Let_def long_function_issue_empty filter_concat_map
      long_line_issue_def split_def)

lemma security_no_long_line:
  "filter (\<lambda>i. title i = Some ''Long Line'') (check_security_issues c l) = []"
  by (simp add: check_security_issues_def Let_def filter_concat_map secret_issues_line_def
      secret_issue_def eval_issue_def split_def)

lemma performance_no_long_line:
  "filter (\<lambda>i. title i = Some ''Long Line'') (check_performance_issues c l st) = []"
  by (simp add: check_performance_issues_def Let_def filter_concat_map loop_issue_def split_def)

lemma maintainability_no_long_line:
  "filter (\<lambda>i. title i = Some ''Long Line'') (check_maintainability c l st) = []"
  by (simp add: check_maintainability_def docstring_issue_def filter_map comp_def)

lemma long_line_issue_stamped:
  "map (\<lambda>i. i\<lparr>file_path := Some p\<rparr>) (concat (map long_line_issue xs))
     = map (long_line_report p) (filter (\<lambda>(i, row). 120 < length row) xs)"
  by (induction xs) (auto simp: long_line_issue_def long_line_report_def mk_issue_def)

text \<open>
  C7. For every code unit, \<open>analyze_file\<close> returns an issue list whose issues titled
  "Long Line" are exactly, in the order of the lines, one issue for each line of the
  content that is longer than 120 characters; that issue has severity LOW and its
  \<open>line\<close> is the 1-based index of the line. The lines are the pieces between the line
  feeds of the content. The witness is a text whose third line has 130 characters: it
  yields one such issue, with line 3.
\<close>

theorem analyze_file_long_lines:
  "\<exists>issues. analyze_file env c l p = Inr issues
     \<and> filter (\<lambda>i. title i = Some ''Long Line'') issues
         = map (long_line_report p)
             (filter (\<lambda>(i, row). 120 < length row) (enumerate 0 (py_split newline c)))
     \<and> join [CHR 0x0A] (py_split newline c) = c
     \<and> list_all (\<lambda>row. CHR 0x0A \<notin> set row) (py_split newline c)"
proof -
  obtain st where st: "analyze_code_structure env c l = Inr st"
    using analyze_code_structure_total by blast
  show ?thesis
    by (simp add: analyze_file_def st filter_title_stamp quality_long_line
        security_no_long_line performance_no_long_line maintainability_no_long_line
        long_line_issue_stamped lines_characterised)
qed

lemma long_line_example_lines:
  "py_split newline long_line_example
     = [''package m'', ''// a long line follows'',
        ''xxxxxxxxxxxxxxxxxxxxxxxxxxxxxxxxxxxxxxxxxxxxxxxxxxxxxxxxxxxxxxxxxxxxxxxxxxxxxxxxxxxxxxxxxxxxxxxxxxxxxxxxxxxxxxxxxxxxxxxxxxxxxxxxxx'']"
  by (simp add: long_line_example_def py_split_def newline_def)

theorem analyze_file_long_lines_witness:
  "\<exists>found. analyze_file example_ts_env long_line_example ''go'' ''m.go'' = Inr found
     \<and> map (\<lambda>i. (title i, line i, severity i, file_path i))
           (filter (\<lambda>i. title i = Some ''Long Line'') found)
         = [(Some ''Long Line'', Some 3, Some ''LOW'', Some ''m.go'')]"
  using analyze_file_long_lines [of example_ts_env long_line_example "''go''" "''m.go''"]
  by (auto simp: long_line_example_lines long_line_report_def)















section \<open>Properties of the report\<close>

subsection \<open>The counters\<close>

lemma map_absent_key:
  "k \<notin> set (map fst d) \<Longrightarrow> map (\<lambda>(k', v). (k', if k' = k then v + 1 else v)) d = d"
  by (induction d) auto

lemma bump_present:
  "k \<in> set (map fst d) \<Longrightarrow> distinct (map fst d)
     \<Longrightarrow> bump k d = map (\<lambda>(k', v). (k', if k' = k then v + 1 else v)) d"
proof (induction d)
  case Nil
  then show ?case by simp
next
  case (Cons a d)
  obtain k' v where a: "a = (k', v)" by (cases a)
  show ?case
  proof (cases "k = k'")
    case True
    with Cons.prems a have "k \<notin> set (map fst d)" by auto
    then show ?thesis using True a by (simp add: map_absent_key)
  next
    case False
    with Cons a show ?thesis by auto
  qed
qed

lemma count_severity_map:
  assumes "distinct (map fst d)"
  shows "count_severity d i
           = map (\<lambda>(k, v). (k, v + (if get_severity i = k then 1 else 0))) d"
proof (cases "has_key d (get_severity i)")
  case True
  then have "count_severity d i = map (\<lambda>(k', v). (k', if k' = get_severity i then v + 1 else v)) d"
    using assms by (simp add: count_severity_def has_key_def bump_present)
  also have "\<dots> = map (\<lambda>(k, v). (k, v + (if get_severity i = k then 1 else 0))) d"
    by (rule map_cong) auto
  finally show ?thesis .
next
  case False
  then have "\<And>k v. (k, v) \<in> set d \<Longrightarrow> get_severity i \<noteq> k"
    by (force simp: has_key_def)
  then have "map (\<lambda>(k, v). (k, v + (if get_severity i = k then 1 else 0))) d = map (\<lambda>x. x) d"
    by (intro map_cong) auto
  with False show ?thesis by (simp add: count_severity_def)
qed

lemma tally_severity:
  "distinct (map fst d) \<Longrightarrow>
   foldl count_severity d xs = map (\<lambda>(k, v). (k, v + count_with_severity xs k)) d"
proof (induction xs arbitrary: d)
  case Nil
  then show ?case by (simp add: count_with_severity_def)
next
  case (Cons i xs)
  let ?d = "count_severity d i"
  have d': "?d = map (\<lambda>(k, v). (k, v + (if get_severity i = k then 1 else 0))) d"
    using Cons.prems by (rule count_severity_map)
  then have "map fst ?d = map fst d" by (simp add: comp_def split_def)
  with Cons.prems have "distinct (map fst ?d)" by simp
  then have "foldl count_severity ?d xs = map (\<lambda>(k, v). (k, v + count_with_severity xs k)) ?d"
    by (rule Cons.IH)
  then show ?case
    by (simp add: d' comp_def split_def count_with_severity_def)
qed

lemma lookup_bump: "lookup (bump k d) k' = (if k' = k then lookup d k + 1 else lookup d k')"
  by (induction d) (auto simp: lookup_def)

lemma tally_type:
  "lookup (foldl count_type d xs) k = lookup d k + count_with_type xs k"
  by (induction xs arbitrary: d) (auto simp: count_type_def lookup_bump count_with_type_def)

lemma tally_both:
  "foldl (\<lambda>(tc, sc) i. (count_type tc i, count_severity sc i)) (t, s) xs
     = (foldl count_type t xs, foldl count_severity s xs)"
  by (induction xs arbitrary: t s) auto

lemma sum_counts:
  "distinct ks \<Longrightarrow>
   sum_list (map (\<lambda>k. length (filter (\<lambda>i. f i = k) xs)) ks)
     = length (filter (\<lambda>i. f i \<in> set ks) xs)"
proof (induction ks)
  case Nil
  then show ?case by simp
next
  case (Cons k ks)
  have "length (filter (\<lambda>i. f i \<in> set (k # ks)) xs)
          = length (filter (\<lambda>i. f i = k) xs) + length (filter (\<lambda>i. f i \<in> set ks) xs)"
    using Cons.prems by (induction xs) auto
  with Cons show ?case by simp
qed

lemma severity_counts_report:
  "severity_breakdown (summary (build_report env st))
     = map (\<lambda>k. (k, count_with_severity (static_issues st @ ai_issues st) k)) severity_levels"
  by (simp add: build_report_def Let_def tally_severity severity_levels_def)

subsection \<open>Score, severity breakdown and recommendations\<close>






text \<open>
  C2, as the code has it. An issue carrying a severity outside the five levels is counted
  in no bucket: for a report over one such issue the five counts sum to 0 while
  \<open>total_issues\<close> is 1, and the MEDIUM count is 0.
\<close>

theorem severity_sum_counterexample:
  "sum_list (map snd (severity_breakdown (summary (build_report example_env blocker_state))))
     \<noteq> total_issues (summary (build_report example_env blocker_state))
   \<and> lookup (severity_breakdown (summary (build_report example_env blocker_state))) ''MEDIUM'' = 0"
  by (simp add: build_report_def Let_def blocker_state_def initial_state_def blocker_issue_def
      count_severity_def get_severity_def has_key_def lookup_def)

text \<open>
  C2, amended. For every state, \<open>severity_breakdown\<close> lists the five levels, each with
  the number of issues whose severity is that level, an issue without the field counting
  as MEDIUM; the five counts sum to the number of issues whose severity is absent or one
  of the five levels; \<open>total_issues\<close> is the length of the combined issue list.
\<close>

theorem severity_breakdown_counts:
  "severity_breakdown (summary (build_report env st))
     = map (\<lambda>k. (k, count_with_severity (static_issues st @ ai_issues st) k)) severity_levels
   \<and> sum_list (map snd (severity_breakdown (summary (build_report env st))))
       = length (filter (\<lambda>i. get_severity i \<in> set severity_levels)
                   (static_issues st @ ai_issues st))
   \<and> total_issues (summary (build_report env st))
       = length (static_issues st @ ai_issues st)"
proof -
  have d: "distinct severity_levels" by (simp add: severity_levels_def)
  have "sum_list (map snd (severity_breakdown (summary (build_report env st))))
          = sum_list (map (\<lambda>k. length (filter (\<lambda>i. get_severity i = k)
                                          (static_issues st @ ai_issues st))) severity_levels)"
    by (simp add: severity_counts_report comp_def count_with_severity_def)
  also have "\<dots> = length (filter (\<lambda>i. get_severity i \<in> set severity_levels)
                          (static_issues st @ ai_issues st))"
    using d by (rule sum_counts)
  finally show ?thesis
    by (simp add: severity_counts_report) (simp add: build_report_def Let_def)
qed

lemma lookup_empty: "lookup [] k = 0"
  by (simp add: lookup_def)

lemma lookup_critical:
  "lookup (foldl count_severity [(''CRITICAL'', 0), (''HIGH'', 0), (''MEDIUM'', 0), (''LOW'', 0)] xs)
     ''CRITICAL'' = count_with_severity xs ''CRITICAL''"
  by (simp add: tally_severity lookup_def)

lemma lookup_high:
  "lookup (foldl count_severity [(''CRITICAL'', 0), (''HIGH'', 0), (''MEDIUM'', 0), (''LOW'', 0)] xs)
     ''HIGH'' = count_with_severity xs ''HIGH''"
  by (simp add: tally_severity lookup_def)

lemma severity_read:
  "k \<noteq> ''MEDIUM'' \<Longrightarrow> (get_severity i = k) = (severity i = Some k)"
  by (cases "severity i") (auto simp: get_severity_def)

lemma category_read:
  "k \<noteq> ''unknown'' \<Longrightarrow> (get_type i = k) = (issue_type i = Some k)"
  by (cases "issue_type i") (auto simp: get_type_def)

lemma count_severity_field:
  "k \<noteq> ''MEDIUM'' \<Longrightarrow> count_with_severity xs k = issues_of_severity xs k"
  by (simp add: count_with_severity_def issues_of_severity_def severity_read)

lemma count_category_field:
  "k \<noteq> ''unknown'' \<Longrightarrow> count_with_type xs k = issues_of_category xs k"
  by (simp add: count_with_type_def issues_of_category_def category_read)

lemma recommendations_spec:
  "generate_recommendations all_issues = spec_recommendations all_issues"
  by (simp add: generate_recommendations_def tally_both Let_def lookup_critical lookup_high
      tally_type lookup_empty spec_recommendations_def count_severity_field
      count_category_field)

text \<open>
  C6. For every issue list, the recommendations are those of the five rules, tried in the
  order CRITICAL count above 0, HIGH count above 3, security count above 0, performance
  count above 2, maintainability count above 5, each adding its text exactly when it
  triggers; when none triggers, and so for the empty list, the result is the single
  fallback recommendation. The witness evaluates a list that triggers no rule and a
  list of eleven issues that triggers all five.
\<close>

theorem recommendations_rules:
  "generate_recommendations all_issues = spec_recommendations all_issues
   \<and> generate_recommendations [] = [rec_looks_good]
   \<and> (issues_of_severity all_issues ''CRITICAL'' = 0
        \<and> issues_of_severity all_issues ''HIGH'' \<le> 3
        \<and> issues_of_category all_issues ''security'' = 0
        \<and> issues_of_category all_issues ''performance'' \<le> 2
        \<and> issues_of_category all_issues ''maintainability'' \<le> 5
      \<longrightarrow> generate_recommendations all_issues = [rec_looks_good])"
  by (simp add: recommendations_spec)
     (simp add: spec_recommendations_def issues_of_severity_def issues_of_category_def)

lemma all_rules_counts:
  "issues_of_severity all_rules_issues ''CRITICAL'' = 1"
  "issues_of_severity all_rules_issues ''HIGH'' = 4"
  "issues_of_category all_rules_issues ''security'' = 2"
  "issues_of_category all_rules_issues ''performance'' = 3"
  "issues_of_category all_rules_issues ''maintainability'' = 6"
  by (simp_all add: issues_of_severity_def issues_of_category_def all_rules_issues_def
      category_issue_def mk_issue_def)

theorem recommendations_rules_witness:
  "issues_of_severity [low_issue] ''CRITICAL'' = 0
   \<and> issues_of_severity [low_issue] ''HIGH'' \<le> 3
   \<and> issues_of_category [low_issue] ''security'' = 0
   \<and> issues_of_category [low_issue] ''performance'' \<le> 2
   \<and> issues_of_category [low_issue] ''maintainability'' \<le> 5
   \<and> generate_recommendations [low_issue] = [rec_looks_good]
   \<and> generate_recommendations all_rules_issues
       = [rec_critical, rec_high, rec_security, rec_performance, rec_maintainability]"
proof -
  have h: "issues_of_severity [low_issue] ''CRITICAL'' = 0
             \<and> issues_of_severity [low_issue] ''HIGH'' \<le> 3
             \<and> issues_of_category [low_issue] ''security'' = 0
             \<and> issues_of_category [low_issue] ''performance'' \<le> 2
             \<and> issues_of_category [low_issue] ''maintainability'' \<le> 5"
    by (simp add: issues_of_severity_def issues_of_category_def low_issue_def mk_issue_def)
  have s: "spec_recommendations all_rules_issues
          = [rec_critical, rec_high, rec_security, rec_performance, rec_maintainability]"
    by (simp add: spec_recommendations_def all_rules_counts)
  from recommendations_rules [of "[low_issue]"] h
  have a: "generate_recommendations [low_issue] = [rec_looks_good]" by blast
  from recommendations_rules [of all_rules_issues] s
  have b: "generate_recommendations all_rules_issues
             = [rec_critical, rec_high, rec_security, rec_performance, rec_maintainability]"
    by simp
  from h a b show ?thesis by blast
qed

section \<open>Properties of the extraction\<close>














section \<open>Properties of the pipeline\<close>

lemma error_on_exception:
  "error (on_exception outcome st)
     = (case outcome of Inl msg \<Rightarrow> msg | Inr st' \<Rightarrow> error st')"
  by (simp add: on_exception_def split: sum.splits)

lemma parse_try_error: "parse_repository_try env st = Inr st' \<Longrightarrow> error st' = error st"
  by (auto simp: parse_repository_try_def Let_def split: sum.splits)

lemma extract_try_error: "extract_code_files_try env st = Inr st' \<Longrightarrow> error st' = error st"
  by (auto simp: extract_code_files_try_def split: sum.splits)

lemma static_try_error: "run_static_analysis_try env st = Inr st' \<Longrightarrow> error st' = error st"
  by (auto simp: run_static_analysis_try_def split: sum.splits)

lemma ai_try_error: "run_ai_analysis_try env st = Inr st' \<Longrightarrow> error st' = error st"
  by (auto simp: run_ai_analysis_try_def Let_def split: prod.splits)

lemma report_try_error: "generate_final_report_try env st = Inr st' \<Longrightarrow> error st' = error st"
  by (auto simp: generate_final_report_try_def)

lemma stage_error:
  assumes "\<And>st'. body = Inr st' \<Longrightarrow> error st' = error st"
  shows "error (on_exception body st) = last (error st # message body)"
  using assms by (cases body) (simp_all add: on_exception_def)

lemma error_after_parse:
  "error (after_parse env url)
     = last ([] # message (parse_repository_try env (initial_state url)))"
proof -
  have "error (after_parse env url)
          = last (error (initial_state url) # message (parse_repository_try env (initial_state url)))"
    unfolding after_parse_def parse_repository_def
    by (rule stage_error) (rule parse_try_error)
  then show ?thesis by (simp add: initial_state_def)
qed

lemma error_after_extract:
  "error (after_extract env url)
     = last (error (after_parse env url) # message (extract_code_files_try env (after_parse env url)))"
  unfolding after_extract_def extract_code_files_stage_def
  by (rule stage_error) (rule extract_try_error)

lemma error_after_static:
  "error (after_static env url)
     = last (error (after_extract env url)
             # message (run_static_analysis_try env (after_extract env url)))"
  unfolding after_static_def run_static_analysis_def
  by (rule stage_error) (rule static_try_error)

lemma error_after_ai:
  "error (after_ai env url)
     = last (error (after_static env url) # message (run_ai_analysis_try env (after_static env url)))"
  unfolding after_ai_def run_ai_analysis_def
  by (rule stage_error) (rule ai_try_error)

lemma workflow_after_ai:
  "workflow env (initial_state url) = generate_final_report env (after_ai env url)"
  by (simp add: workflow_def after_ai_def after_static_def after_extract_def after_parse_def)

lemma error_workflow_step:
  "error (workflow env (initial_state url))
     = last (error (after_ai env url) # message (generate_final_report_try env (after_ai env url)))"
  unfolding workflow_after_ai generate_final_report_def
  by (rule stage_error) (rule report_try_error)

lemma last_cons_append: "last (last (x # ys) # zs) = last (x # ys @ zs)"
  by (cases zs) auto

lemma error_workflow:
  "error (workflow env (initial_state url)) = last ([] # recorded_errors env url)"
  unfolding error_workflow_step error_after_ai error_after_static error_after_extract
    error_after_parse recorded_errors_def
  by (simp only: last_cons_append append_assoc)

lemma message_nonempty:
  "msg \<in> set (message (parse_repository_try env st)) \<Longrightarrow> msg \<noteq> []"
  "msg \<in> set (message (extract_code_files_try env st)) \<Longrightarrow> msg \<noteq> []"
  "msg \<in> set (message (run_static_analysis_try env st)) \<Longrightarrow> msg \<noteq> []"
  "msg \<in> set (message (run_ai_analysis_try env st)) \<Longrightarrow> msg \<noteq> []"
  "msg \<in> set (message (generate_final_report_try env st)) \<Longrightarrow> msg \<noteq> []"
  by (auto simp: parse_repository_try_def extract_code_files_try_def run_static_analysis_try_def
      run_ai_analysis_try_def generate_final_report_try_def Let_def
      split: sum.splits prod.splits)

lemma recorded_nonempty: "msg \<in> set (recorded_errors env url) \<Longrightarrow> msg \<noteq> []"
  unfolding recorded_errors_def by (auto dest: message_nonempty)

lemma report_workflow:
  "final_report (workflow env (initial_state url)) = Some (build_report env (after_ai env url))"
  by (simp add: workflow_after_ai generate_final_report_def generate_final_report_try_def
      on_exception_def)

text \<open>
  C5, amended. When \<open>workflow.invoke\<close> returns: if some node records an error, \<open>analyze\<close>
  returns \<open>success = False\<close>, no report, and as error the message of the last node that
  recorded one, which is not empty; if no node records an error, \<open>analyze\<close> returns
  \<open>success = True\<close>, no error, and the report built from the state after the AI node.
\<close>

theorem analyze_outcome:
  assumes "invoke_raises env = None"
  shows "(recorded_errors env url \<noteq> []
            \<longrightarrow> last (recorded_errors env url) \<noteq> []
                \<and> analyze env url
                    = \<lparr>success = False, result_error = Some (last (recorded_errors env url)),
                       result_report = None\<rparr>)
         \<and> (recorded_errors env url = []
            \<longrightarrow> analyze env url
                  = \<lparr>success = True, result_error = None,
                     result_report = Some (build_report env (after_ai env url))\<rparr>)"
proof (intro conjI impI)
  assume ne: "recorded_errors env url \<noteq> []"
  then have "last (recorded_errors env url) \<in> set (recorded_errors env url)" by simp
  then show l: "last (recorded_errors env url) \<noteq> []" by (rule recorded_nonempty)
  have "error (workflow env (initial_state url)) = last (recorded_errors env url)"
    using ne by (simp add: error_workflow)
  with l assms show "analyze env url
                    = \<lparr>success = False, result_error = Some (last (recorded_errors env url)),
                       result_report = None\<rparr>"
    by (simp add: analyze_def Let_def)
next
  assume "recorded_errors env url = []"
  then have "error (workflow env (initial_state url)) = []"
    by (simp add: error_workflow)
  with assms show "analyze env url
                  = \<lparr>success = True, result_error = None,
                     result_report = Some (build_report env (after_ai env url))\<rparr>"
    by (simp add: analyze_def Let_def report_workflow)
qed

text \<open>
  Whatever the collaborators do, also when \<open>workflow.invoke\<close> raises, the result has one
  of the two shapes.
\<close>

lemma analyze_shape:
  "(\<not> success (analyze env url) \<and> result_error (analyze env url) \<noteq> None
      \<and> result_report (analyze env url) = None)
   \<or> (success (analyze env url) \<and> result_error (analyze env url) = None
      \<and> result_report (analyze env url) \<noteq> None)"
  by (simp add: analyze_def Let_def report_workflow split: option.splits)

lemma parse_foo:
  "parse_github_url ''foo'' = Inl ''Failed to parse GitHub URL: Invalid GitHub URL''"
  by (simp add: parse_github_url_def)

lemma parse_good:
  "parse_github_url ''https://github.com/o/r''
     = Inr \<lparr>owner = ''o'', repo = ''r'', full_url = ''https://github.com/o/r.git''\<rparr>"
  by (simp add: parse_github_url_def py_split_def suffix_to_prefix)

lemma recorded_foo:
  "recorded_errors clone_fails_env ''foo''
     = [''Failed to parse repository: Failed to parse GitHub URL: Invalid GitHub URL'',
        ''Failed to extract code files: Failed to clone repository: repository not found'']"
  by (simp add: recorded_errors_def after_ai_def after_static_def after_extract_def
      after_parse_def parse_repository_def parse_repository_try_def parse_foo
      extract_code_files_stage_def extract_code_files_try_def clone_repository_def
      run_static_analysis_def run_static_analysis_try_def run_ai_analysis_def
      run_ai_analysis_try_def generate_final_report_try_def on_exception_def
      clone_fails_env_def example_env_def initial_state_def Let_def split: prod.splits)

lemma recorded_good:
  "recorded_errors example_env ''https://github.com/o/r'' = []"
  by (simp add: recorded_errors_def after_ai_def after_static_def after_extract_def
      after_parse_def parse_repository_def parse_repository_try_def parse_good
      extract_code_files_stage_def extract_code_files_try_def clone_repository_def
      extract_code_files_def
      run_static_analysis_def run_static_analysis_try_def run_ai_analysis_def
      run_ai_analysis_try_def generate_final_report_try_def on_exception_def
      example_env_def example_github_env_def initial_state_def Let_def split: prod.splits)

text \<open>
  C5, as the code has it. The nodes are not short-circuited, and a later handler replaces
  the message of an earlier one: for the locator \<open>foo\<close> the first node records that the
  URL is invalid, the second that cloning failed, and \<open>analyze\<close> returns the second
  message, not the first.
\<close>

theorem first_error_replaced_counterexample:
  "parse_repository_try clone_fails_env (initial_state ''foo'')
     = Inl ''Failed to parse repository: Failed to parse GitHub URL: Invalid GitHub URL''
   \<and> result_error (analyze clone_fails_env ''foo'')
       = Some ''Failed to extract code files: Failed to clone repository: repository not found''
   \<and> result_error (analyze clone_fails_env ''foo'')
       \<noteq> Some ''Failed to parse repository: Failed to parse GitHub URL: Invalid GitHub URL''"
proof -
  have "error (workflow clone_fails_env (initial_state ''foo''))
          = ''Failed to extract code files: Failed to clone repository: repository not found''"
    by (simp add: error_workflow recorded_foo)
  moreover have "invoke_raises clone_fails_env = None"
    by (simp add: clone_fails_env_def example_env_def)
  ultimately show ?thesis
    by (simp add: analyze_def Let_def parse_repository_try_def initial_state_def parse_foo)
qed

theorem analyze_outcome_witness:
  "invoke_raises example_env = None
   \<and> recorded_errors example_env ''https://github.com/o/r'' = []
   \<and> analyze example_env ''https://github.com/o/r''
       = \<lparr>success = True, result_error = None,
          result_report = Some (build_report example_env
                                  (after_ai example_env ''https://github.com/o/r''))\<rparr>
   \<and> invoke_raises clone_fails_env = None
   \<and> recorded_errors clone_fails_env ''foo'' \<noteq> []
   \<and> analyze clone_fails_env ''foo''
       = \<lparr>success = False,
          result_error = Some ''Failed to extract code files: Failed to clone repository: repository not found'',
          result_report = None\<rparr>"
proof -
  have a: "invoke_raises example_env = None" by (simp add: example_env_def)
  have b: "invoke_raises clone_fails_env = None"
    by (simp add: clone_fails_env_def example_env_def)
  have c: "recorded_errors clone_fails_env ''foo'' \<noteq> []" by (simp add: recorded_foo)
  have d: "last (recorded_errors clone_fails_env ''foo'')
             = ''Failed to extract code files: Failed to clone repository: repository not found''"
    by (simp add: recorded_foo)
  from analyze_outcome [OF a, of "''https://github.com/o/r''"]
       analyze_outcome [OF b, of "''foo''"] a b c d recorded_good
  show ?thesis by simp
qed

section \<open>Properties of the AI stage\<close>

subsection \<open>Simulation\<close>

lemma simulate_calls_append: "simulate_calls (a @ b) = simulate_calls a @ simulate_calls b"
  by (induction a rule: simulate_calls.induct) auto

lemma generate_content_calls:
  "generate_content m prompt tr = (r, tr1) \<Longrightarrow> simulate_calls tr1 = simulate_calls tr"
  by (auto simp: generate_content_def Let_def simulate_calls_append)

lemma analyze_with_cli_calls:
  "analyze_with_cli env prompt tr = (r, tr1) \<Longrightarrow> simulate_calls tr1 = simulate_calls tr"
  by (auto simp: analyze_with_cli_def Let_def simulate_calls_append)

lemma fallback_not_simulation:
  "filter from_simulation (fallback_logic_analysis code lang fpath) = []"
  by (simp add: fallback_logic_analysis_def filter_concat_map fallback_line_def split_def
      Let_def fallback_issue_def from_simulation_def)

lemma parse_text_scan_not_simulation:
  "filter from_simulation found = [] \<Longrightarrow> (\<forall>c. current = Some c \<longrightarrow> \<not> from_simulation c)
     \<Longrightarrow> filter from_simulation (parse_text_scan fpath found current ls) = []"
proof (induction fpath found current ls rule: parse_text_scan.induct)
  case (1 fpath found current)
  then show ?case by (auto split: option.splits)
next
  case (2 fpath found current raw rest)
  have t: "\<not> from_simulation (text_issue (strip raw) fpath)"
    by (simp add: from_simulation_def text_issue_def)
  have f: "filter from_simulation (case current of None \<Rightarrow> found | Some c \<Rightarrow> found @ [c]) = []"
    using "2.prems" by (auto split: option.splits)
  show ?case
    using 2 t f by (simp add: Let_def)
qed

lemma parse_text_not_simulation:
  "filter from_simulation (parse_text_response text fpath) = []"
  by (simp add: parse_text_response_def parse_text_scan_not_simulation)

lemma stamped_not_simulation:
  "filter from_simulation
     (map (\<lambda>i. i\<lparr>file_path := Some fpath, source := Some ''gemini''\<rparr>) parsed) = []"
  by (induction parsed) (auto simp: from_simulation_def)

lemma parse_gemini_not_simulation:
  assumes "parse_gemini_response env text fpath = Some found"
  shows "filter from_simulation found = []"
proof -
  have "found = parse_text_response text fpath
          \<or> (\<exists>parsed. found = map (\<lambda>i. i\<lparr>file_path := Some fpath, source := Some ''gemini''\<rparr>) parsed)"
    using assms
    by (auto simp: parse_gemini_response_def Let_def split: if_splits json_outcome.splits)
  then show ?thesis
    using parse_text_not_simulation stamped_not_simulation by auto
qed

lemma analyze_with_cli_logic_calls:
  "analyze_with_cli_logic env code lang fpath tr = (found, tr1)
     \<Longrightarrow> simulate_calls tr1 = simulate_calls tr \<and> filter from_simulation found = []"
  by (auto simp: analyze_with_cli_logic_def Let_def fallback_not_simulation
      split: prod.splits if_splits option.splits
      dest: analyze_with_cli_calls parse_gemini_not_simulation)

lemma analyze_code_logic_calls:
  "analyze_code_logic env code lang fpath tr = (found, tr1)
     \<Longrightarrow> simulate_calls tr1 = simulate_calls tr \<and> filter from_simulation found = []"
  by (auto simp: analyze_code_logic_def Let_def fallback_not_simulation
      split: prod.splits if_splits option.splits sum.splits
      dest: analyze_with_cli_logic_calls generate_content_calls parse_gemini_not_simulation)

lemma simulate_code_execution_calls:
  "simulate_code_execution env code lang tr = (r, tr2)
     \<Longrightarrow> simulate_calls tr2 = simulate_calls tr @ [(code, lang, r)]"
  by (auto simp: simulate_code_execution_def Let_def simulate_calls_append
      split: prod.splits option.splits dest: generate_content_calls)

lemma runtime_issues_from_simulation:
  "filter from_simulation (map (runtime_issue p) texts) = map (runtime_issue p) texts"
  by (induction texts) (auto simp: from_simulation_def runtime_issue_def)

lemma ai_loop_simulation:
  "ai_loop env acc files tr = (out, tr') \<Longrightarrow>
     \<exists>S. simulate_calls tr' = simulate_calls tr @ S
       \<and> map call_args S = map (\<lambda>f. (content f, language f)) (small_files files)
       \<and> filter from_simulation out
           = filter from_simulation acc @ concat (map converted (zip (small_files files) S))"
proof (induction files arbitrary: acc tr out tr')
  case Nil
  then show ?case by (simp add: small_files_def)
next
  case (Cons f rest)
  obtain logic tr1 where l: "analyze_code_logic env (content f) (language f) (path f) tr = (logic, tr1)"
    by (cases "analyze_code_logic env (content f) (language f) (path f) tr")
  from analyze_code_logic_calls [OF l]
  have l1: "simulate_calls tr1 = simulate_calls tr" and l2: "filter from_simulation logic = []"
    by simp_all
  show ?case
  proof (cases "length (content f) < 5000")
    case True
    obtain sim tr2 where s: "simulate_code_execution env (content f) (language f) tr1 = (sim, tr2)"
      by (cases "simulate_code_execution env (content f) (language f) tr1")
    from simulate_code_execution_calls [OF s]
    have s1: "simulate_calls tr2 = simulate_calls tr1 @ [(content f, language f, sim)]" .
    let ?acc = "acc @ logic @ map (runtime_issue (path f)) (reported sim)"
    have "ai_loop env ?acc rest tr2 = (out, tr')"
      using Cons.prems l s True by (simp add: Let_def reported_def)
    from Cons.IH [OF this] obtain S where
      S1: "simulate_calls tr' = simulate_calls tr2 @ S" and
      S2: "map call_args S = map (\<lambda>f. (content f, language f)) (small_files rest)" and
      S3: "filter from_simulation out
             = filter from_simulation ?acc @ concat (map converted (zip (small_files rest) S))"
      by blast
    let ?S = "(content f, language f, sim) # S"
    have "simulate_calls tr' = simulate_calls tr @ ?S"
      using S1 s1 l1 by simp
    moreover have "map call_args ?S = map (\<lambda>f. (content f, language f)) (small_files (f # rest))"
      using S2 True by (simp add: small_files_def call_args_def)
    moreover have "filter from_simulation out
           = filter from_simulation acc @ concat (map converted (zip (small_files (f # rest)) ?S))"
      using S3 True l2
      by (simp add: small_files_def converted_def runtime_issues_from_simulation)
    ultimately show ?thesis by blast
  next
    case False
    have "ai_loop env (acc @ logic) rest tr1 = (out, tr')"
      using Cons.prems l False by (simp add: Let_def)
    from Cons.IH [OF this] obtain S where
      S1: "simulate_calls tr' = simulate_calls tr1 @ S" and
      S2: "map call_args S = map (\<lambda>f. (content f, language f)) (small_files rest)" and
      S3: "filter from_simulation out
             = filter from_simulation (acc @ logic) @ concat (map converted (zip (small_files rest) S))"
      by blast
    have "simulate_calls tr' = simulate_calls tr @ S"
      using S1 l1 by simp
    moreover have "map call_args S = map (\<lambda>f. (content f, language f)) (small_files (f # rest))"
      using S2 False by (simp add: small_files_def)
    moreover have "filter from_simulation out
           = filter from_simulation acc @ concat (map converted (zip (small_files (f # rest)) S))"
      using S3 False l2 by (simp add: small_files_def)
    ultimately show ?thesis by blast
  qed
qed

text \<open>
  C4, amended. In the loop of the AI stage over the first ten code files,
  \<open>simulate_code_execution\<close> is called exactly once for each file whose content is
  shorter than 5000 characters, in order, and for no other file; the issues of the result
  that come from a simulation are, in order, one issue for each text that these calls
  reported, and such an issue has type \<open>runtime_risk\<close>, severity MEDIUM, line 1 and source
  \<open>gemini_simulation\<close>, with the text as description and the file's path.
\<close>

theorem simulation_issues:
  "map call_args (simulate_calls (snd (ai_loop env [] (take 10 files) [])))
     = map (\<lambda>f. (content f, language f)) (small_files (take 10 files))
   \<and> filter from_simulation (fst (ai_loop env [] (take 10 files) []))
       = concat (map converted (zip (small_files (take 10 files))
                                   (simulate_calls (snd (ai_loop env [] (take 10 files) [])))))
   \<and> runtime_issue p issue_text
       = \<lparr>issue_type = Some ''runtime_risk'', severity = Some ''MEDIUM'',
          title = Some ''Potential Runtime Issue'', description = Some issue_text,
          line = Some 1, suggestion = Some ''Review code for runtime safety'',
          file_path = Some p, source = Some ''gemini_simulation'',
          enhanced_suggestion = None\<rparr>"
proof -
  obtain out tr' where a: "ai_loop env [] (take 10 files) [] = (out, tr')"
    by (cases "ai_loop env [] (take 10 files) []")
  from ai_loop_simulation [OF a] show ?thesis
    by (auto simp: a runtime_issue_def)
qed

lemma strip_error_x: "strip ''error: x'' = ''error: x''"
  by (simp add: strip_def isspace_def)

lemma lower_error_x: "lower ''error: x'' = ''error: x''"
  by (simp add: lower_def lower_char_def)

lemma split_error_x: "py_split newline ''error: x'' = [''error: x'']"
  by (simp add: py_split_def newline_def)

lemma logic_error_x:
  "fst (analyze_code_logic api_env code lang fpath tr) = [text_issue ''error: x'' fpath]"
  by (simp add: analyze_code_logic_def api_env_def generate_content_def echo_model_def Let_def
      parse_gemini_response_def find_char_def parse_text_response_def split_error_x
      strip_error_x lower_error_x issue_keywords_def)

lemma simulate_error_x:
  "fst (simulate_code_execution api_env code lang tr)
     = \<lparr>simulation_results = ''error: x'', potential_runtime_issues = Some [''error: x'']\<rparr>"
  by (simp add: simulate_code_execution_def api_env_def generate_content_def echo_model_def
      Let_def extract_runtime_issues_def split_error_x strip_error_x lower_error_x
      runtime_keywords_def)

lemma ai_loop_one_file:
  "fst (ai_loop api_env [] one_file [])
     = [text_issue ''error: x'' ''a.py'', runtime_issue ''a.py'' ''error: x'']"
proof -
  obtain l tr1 where l: "analyze_code_logic api_env ''eval(x)'' ''python'' ''a.py'' [] = (l, tr1)"
    by (cases "analyze_code_logic api_env ''eval(x)'' ''python'' ''a.py'' []")
  obtain s tr2 where s: "simulate_code_execution api_env ''eval(x)'' ''python'' tr1 = (s, tr2)"
    by (cases "simulate_code_execution api_env ''eval(x)'' ''python'' tr1")
  have l': "l = [text_issue ''error: x'' ''a.py'']"
    using logic_error_x [of "''eval(x)''" "''python''" "''a.py''" "[]"] l by simp
  have s': "s = \<lparr>simulation_results = ''error: x'', potential_runtime_issues = Some [''error: x'']\<rparr>"
    using simulate_error_x [of "''eval(x)''" "''python''" tr1] s by simp
  show ?thesis
    by (simp add: one_file_def l s l' s' Let_def)
qed

text \<open>
  C4, as the code has it. For one small file and a backend whose simulation reports one
  text, the issue made from it has line 1, not 0, and source \<open>gemini_simulation\<close>, not
  \<open>ai_simulation\<close>.
\<close>

theorem simulation_line_source_counterexample:
  "map line (filter from_simulation (fst (ai_loop api_env [] one_file []))) = [Some 1]
   \<and> map source (filter from_simulation (fst (ai_loop api_env [] one_file [])))
       = [Some ''gemini_simulation'']
   \<and> map line (filter from_simulation (fst (ai_loop api_env [] one_file []))) \<noteq> [Some 0]
   \<and> map source (filter from_simulation (fst (ai_loop api_env [] one_file [])))
       \<noteq> [Some ''ai_simulation'']"
  by (simp add: ai_loop_one_file from_simulation_def text_issue_def runtime_issue_def)

subsection \<open>Enhancement\<close>

text \<open>
  What holds of the enhancement for every input: it is the identity without a backend and
  on the empty list; the result has the length of the input, and the same issues up to
  their order and their \<open>enhanced_suggestion\<close>.
\<close>

lemma generate_improvement_identity:
  "model env = None \<or> all_issues = []
     \<Longrightarrow> generate_improvement_suggestions env all_issues tr = (all_issues, tr)"
  by (auto simp: generate_improvement_suggestions_def split: option.splits)

lemma apply_suggestions_fields:
  "map without_enhancement (apply_suggestions xs ss) = map without_enhancement xs"
  by (induction xs ss rule: apply_suggestions.induct) (auto simp: without_enhancement_def)

lemma enhance_file_fields:
  "map without_enhancement (fst (enhance_suggestions_for_file m xs fpath tr))
     = map without_enhancement xs"
  by (auto simp: enhance_suggestions_for_file_def generate_content_def Let_def
      apply_suggestions_fields split: option.splits sum.splits)

lemma enhance_groups_fields:
  "map without_enhancement (fst (enhance_groups m acc groups tr))
     = map without_enhancement acc @ concat (map (\<lambda>g. map without_enhancement (snd g)) groups)"
proof (induction m acc groups tr rule: enhance_groups.induct)
  case (1 m acc tr)
  then show ?case by simp
next
  case (2 m acc fpath file_issues rest tr)
  obtain e tr1 where e: "enhance_suggestions_for_file m file_issues fpath tr = (e, tr1)"
    by (cases "enhance_suggestions_for_file m file_issues fpath tr")
  have "map without_enhancement e = map without_enhancement file_issues"
    using enhance_file_fields [of m file_issues fpath tr] e by simp
  with 2 e show ?case by simp
qed

lemma group_add_mset:
  "mset (concat (map snd (group_add k i d))) = add_mset i (mset (concat (map snd d)))"
  by (induction k i d rule: group_add.induct) auto

lemma group_fold_mset:
  "mset (concat (map snd (foldl (\<lambda>d i. group_add (key i) i d) d xs)))
     = mset (concat (map snd d)) + mset xs"
  by (induction xs arbitrary: d) (auto simp: group_add_mset)

lemma group_by_file_mset: "mset (concat (map snd (group_by_file xs))) = mset xs"
  using group_fold_mset [of "\<lambda>i. case file_path i of None \<Rightarrow> ''unknown'' | Some p \<Rightarrow> p" "[]" xs]
  by (simp add: group_by_file_def)

lemma concat_map_map: "concat (map (\<lambda>g. map f (snd g)) gs) = map f (concat (map snd gs))"
  by (induction gs) auto

lemma generate_improvement_keeps_issues:
  "mset (map without_enhancement (fst (generate_improvement_suggestions env all_issues tr)))
     = mset (map without_enhancement all_issues)"
proof (cases "model env = None \<or> all_issues = []")
  case True
  then show ?thesis by (simp add: generate_improvement_identity)
next
  case False
  then obtain m where m: "model env = Some m" by auto
  have "map without_enhancement (fst (generate_improvement_suggestions env all_issues tr))
          = map without_enhancement (concat (map snd (group_by_file all_issues)))"
    using False m
    by (simp add: generate_improvement_suggestions_def enhance_groups_fields concat_map_map)
  then show ?thesis
    by (simp add: group_by_file_mset)
qed

lemma generate_improvement_length:
  "length (fst (generate_improvement_suggestions env all_issues tr)) = length all_issues"
proof -
  have "size (mset (map without_enhancement (fst (generate_improvement_suggestions env all_issues tr))))
          = size (mset (map without_enhancement all_issues))"
    by (simp only: generate_improvement_keeps_issues)
  then show ?thesis by simp
qed

text \<open>
  C3, at an input where the code departs from it. With a backend present, the issues are
  grouped by file path before they are enhanced and the groups are concatenated: for the
  issues of the files \<open>a.py\<close>, \<open>b.py\<close>, \<open>a.py\<close>, in this order, the result has the two
  issues of \<open>a.py\<close> first. The order is not preserved.
\<close>

theorem enhancement_reorders:
  "fst (generate_improvement_suggestions api_env [low_issue, other_file_issue, critical_issue] [])
     = [low_issue\<lparr>enhanced_suggestion := Some ''error: x''\<rparr>, critical_issue,
        other_file_issue\<lparr>enhanced_suggestion := Some ''error: x''\<rparr>]
   \<and> map file_path
         (fst (generate_improvement_suggestions api_env
                 [low_issue, other_file_issue, critical_issue] []))
       = [Some ''a.py'', Some ''a.py'', Some ''b.py'']
   \<and> map file_path [low_issue, other_file_issue, critical_issue]
       = [Some ''a.py'', Some ''b.py'', Some ''a.py'']"
  by (simp add: generate_improvement_suggestions_def api_env_def group_by_file_def
      low_issue_def other_file_issue_def critical_issue_def mk_issue_def
      enhance_suggestions_for_file_def generate_content_def echo_model_def Let_def
      split_error_x strip_error_x)

lemma ai_loop_echo:
  "fst (ai_loop api_env acc files tr)
     = acc @ concat (map (\<lambda>f. text_issue ''error: x'' (path f)
                              # (if length (content f) < 5000
                                 then [runtime_issue (path f) ''error: x''] else [])) files)"
proof (induction files arbitrary: acc tr)
  case Nil
  then show ?case by simp
next
  case (Cons f rest)
  obtain l tr1 where l: "analyze_code_logic api_env (content f) (language f) (path f) tr = (l, tr1)"
    by (cases "analyze_code_logic api_env (content f) (language f) (path f) tr")
  obtain s tr2 where s: "simulate_code_execution api_env (content f) (language f) tr1 = (s, tr2)"
    by (cases "simulate_code_execution api_env (content f) (language f) tr1")
  have l': "l = [text_issue ''error: x'' (path f)]"
    using logic_error_x [of "content f" "language f" "path f" tr] l by simp
  have s': "s = \<lparr>simulation_results = ''error: x'', potential_runtime_issues = Some [''error: x'']\<rparr>"
    using simulate_error_x [of "content f" "language f" tr1] s by simp
  show ?case
    by (simp add: l s l' s' Let_def Cons.IH)
qed

text \<open>
  The AI stage splits the enhanced list at the number of static issues. After the
  grouping by file, the first part holds an issue that the backend found, and the static
  issue of the second file is among the AI issues.
\<close>

theorem static_partition_mixed:
  "static_issues (run_ai_analysis api_pipeline_env two_files_state)
     = [low_issue\<lparr>enhanced_suggestion := Some ''error: x''\<rparr>, text_issue ''error: x'' ''a.py'']
   \<and> ai_issues (run_ai_analysis api_pipeline_env two_files_state)
       = [runtime_issue ''a.py'' ''error: x'',
          other_file_issue\<lparr>enhanced_suggestion := Some ''error: x''\<rparr>,
          text_issue ''error: x'' ''b.py'', runtime_issue ''b.py'' ''error: x'']"
proof -
  obtain ai tr1 where a: "ai_loop api_env [] two_files [] = (ai, tr1)"
    by (cases "ai_loop api_env [] two_files []")
  have ai: "ai = [text_issue ''error: x'' ''a.py'', runtime_issue ''a.py'' ''error: x'',
                  text_issue ''error: x'' ''b.py'', runtime_issue ''b.py'' ''error: x'']"
    using ai_loop_echo [of "[]" two_files "[]"] a by (simp add: two_files_def)
  obtain e tr2 where e: "generate_improvement_suggestions api_env ([low_issue, other_file_issue] @ ai) tr1 = (e, tr2)"
    by (cases "generate_improvement_suggestions api_env ([low_issue, other_file_issue] @ ai) tr1")
  have "fst (generate_improvement_suggestions api_env ([low_issue, other_file_issue] @ ai) tr1)
          = [low_issue\<lparr>enhanced_suggestion := Some ''error: x''\<rparr>, text_issue ''error: x'' ''a.py'',
             runtime_issue ''a.py'' ''error: x'',
             other_file_issue\<lparr>enhanced_suggestion := Some ''error: x''\<rparr>,
             text_issue ''error: x'' ''b.py'', runtime_issue ''b.py'' ''error: x'']"
    by (simp add: ai generate_improvement_suggestions_def api_env_def group_by_file_def
      low_issue_def other_file_issue_def mk_issue_def text_issue_def runtime_issue_def
      enhance_suggestions_for_file_def generate_content_def echo_model_def Let_def
      split_error_x strip_error_x)
  with e have e': "e = [low_issue\<lparr>enhanced_suggestion := Some ''error: x''\<rparr>, text_issue ''error: x'' ''a.py'',
             runtime_issue ''a.py'' ''error: x'',
             other_file_issue\<lparr>enhanced_suggestion := Some ''error: x''\<rparr>,
             text_issue ''error: x'' ''b.py'', runtime_issue ''b.py'' ''error: x'']"
    by simp
  have c: "code_files two_files_state = two_files"
    "static_issues two_files_state = [low_issue, other_file_issue]"
    "gemini api_pipeline_env = api_env"
    by (simp_all add: two_files_state_def initial_state_def api_pipeline_env_def)
  have t: "take 10 two_files = two_files" by (simp add: two_files_def)
  show ?thesis
    using a e
    by (simp add: run_ai_analysis_def run_ai_analysis_try_def on_exception_def Let_def c t e')
qed

end
